theory Spec2Isabelle
  imports Complex_Main "HOL-Library.Sublist"
begin

section \<open>Python values\<close>

text \<open>
  A Python \<open>str\<close> is a sequence of code points. It is modelled by a HOL \<open>string\<close> whose
  characters are the code points U+0000 to U+00FF, so \<open>length\<close> is Python's \<open>len\<close> and
  the model covers the texts written in that range (ASCII, and among others the signs
  U+00D7 and U+00F7 that the arithmetic patterns name). Python integers are \<open>int\<close>,
  confidences are \<open>real\<close>, an exception is a value of \<open>pyexc\<close> and a call that may
  raise returns \<open>pyexc + 'a\<close>.
\<close>

datatype pyexc =
    ValueError string
  | ZeroDivisionError string
  | OverflowError string
  | RuntimeError string

fun exc_str :: "pyexc \<Rightarrow> string" where
  "exc_str (ValueError m) = m"
| "exc_str (ZeroDivisionError m) = m"
| "exc_str (OverflowError m) = m"
| "exc_str (RuntimeError m) = m"

definition digit_char :: "nat \<Rightarrow> char" where
  "digit_char d = ''0123456789'' ! d"

text \<open>\<open>str(n)\<close> for a natural number and for an integer: decimal, no leading zeros.\<close>

fun str_nat :: "nat \<Rightarrow> string" where
  "str_nat n = (if n < 10 then [digit_char n] else str_nat (n div 10) @ [digit_char (n mod 10)])"

declare str_nat.simps [simp del]

definition str_int :: "int \<Rightarrow> string" where
  "str_int i = (if i < 0 then ''-'' @ str_nat (nat (- i)) else str_nat (nat i))"

text \<open>Python truthiness of an optional string: present and not empty.\<close>

definition truthy :: "string option \<Rightarrow> bool" where
  "truthy x = (case x of None \<Rightarrow> False | Some s \<Rightarrow> s \<noteq> [])"

section \<open>Text primitives\<close>

text \<open>
  \<open>str.isspace\<close>, which \<open>str.strip()\<close> and the pattern class \<open>\s\<close> share, and the
  decimal digits of \<open>\d\<close> and \<open>int()\<close>, on the code points up to U+00FF.
\<close>

definition is_space :: "char \<Rightarrow> bool" where
  "is_space c = (of_char c \<in> {9, 10, 11, 12, 13, 28, 29, 30, 31, 32, 133, 160 :: nat})"

definition is_digit :: "char \<Rightarrow> bool" where
  "is_digit c = (48 \<le> (of_char c :: nat) \<and> (of_char c :: nat) \<le> 57)"

definition strip :: "string \<Rightarrow> string" where
  "strip s = rev (dropWhile is_space (rev (dropWhile is_space s)))"

text \<open>
  \<open>str.lower()\<close>: A to Z and the capital letters U+00C0 to U+00DE (U+00D7 is no
  letter) move to the letter 32 code points above; the tables list those letters.
\<close>

definition ascii_lower :: string where
  "ascii_lower = ''abcdefghijklmnopqrstuvwxyz''"

definition latin_lower :: string where
  "latin_lower =
     [CHR 0xE0, CHR 0xE1, CHR 0xE2, CHR 0xE3, CHR 0xE4, CHR 0xE5, CHR 0xE6, CHR 0xE7,
      CHR 0xE8, CHR 0xE9, CHR 0xEA, CHR 0xEB, CHR 0xEC, CHR 0xED, CHR 0xEE, CHR 0xEF,
      CHR 0xF0, CHR 0xF1, CHR 0xF2, CHR 0xF3, CHR 0xF4, CHR 0xF5, CHR 0xF6, CHR 0xF7,
      CHR 0xF8, CHR 0xF9, CHR 0xFA, CHR 0xFB, CHR 0xFC, CHR 0xFD, CHR 0xFE]"

definition lower_char :: "char \<Rightarrow> char" where
  "lower_char c =
     (let n = (of_char c :: nat)
      in if 65 \<le> n \<and> n \<le> 90 then ascii_lower ! (n - 65)
         else if 192 \<le> n \<and> n \<le> 222 \<and> n \<noteq> 215 then latin_lower ! (n - 192)
         else c)"

definition lower :: "string \<Rightarrow> string" where
  "lower s = map lower_char s"

text \<open>\<open>needle in haystack\<close> for two strings.\<close>

fun contains :: "string \<Rightarrow> string \<Rightarrow> bool" where
  "contains [] needle = (needle = [])"
| "contains (c # cs) needle = (prefix needle (c # cs) \<or> contains cs needle)"

text \<open>\<open>s.replace(c, r)\<close> for a single character \<open>c\<close>.\<close>

definition replace :: "string \<Rightarrow> char \<Rightarrow> string \<Rightarrow> string" where
  "replace s c r = concat (map (\<lambda>x. if x = c then r else [x]) s)"

text \<open>\<open>'\n'.join(lines)\<close>: the lines of a triple-quoted template.\<close>

fun join_lines :: "string list \<Rightarrow> string" where
  "join_lines [] = []"
| "join_lines [l] = l"
| "join_lines (l # m # ls) = l @ ''\<newline>'' @ join_lines (m # ls)"

text \<open>
  \<open>int(s)\<close>: surrounding whitespace is dropped, one sign is allowed, and the digits may
  be separated by single underscores; anything else raises ValueError.
\<close>

fun int_body :: "string \<Rightarrow> bool" where
  "int_body [] = False"
| "int_body [c] = is_digit c"
| "int_body (c # d # r) = (is_digit c \<and> (if d = CHR ''_'' then int_body r else int_body (d # r)))"

definition digit_val :: "char \<Rightarrow> nat" where
  "digit_val c = of_char c - 48"

definition digits_val :: "string \<Rightarrow> nat" where
  "digits_val s = foldl (\<lambda>a c. 10 * a + digit_val c) 0 (filter (\<lambda>c. c \<noteq> CHR ''_'') s)"

definition py_int :: "string \<Rightarrow> pyexc + int" where
  "py_int s =
     (let t = strip s;
          neg = (t \<noteq> [] \<and> hd t = CHR ''-'');
          body = (if t \<noteq> [] \<and> (hd t = CHR ''-'' \<or> hd t = CHR ''+'') then tl t else t)
      in if int_body body
         then Inr (if neg then - int (digits_val body) else int (digits_val body))
         else Inl (ValueError (''invalid literal for int() with base 10: '' @ s)))"

text \<open>
  Floats. A binary64 value is the rational it denotes. Every integer of magnitude at
  most \<open>2 ^ 53\<close> is a binary64 value, so rounding leaves it alone, and \<open>str\<close> prints an
  integral float below \<open>10 ^ 16\<close> as the integer followed by \<open>.0\<close>. Rounding any other
  rational (which raises OverflowError when the result is too large) and printing any
  other float belong to the interpreter and are the two fields of \<open>float_rt\<close>.
\<close>

record float_rt =
  fl_round :: "rat \<Rightarrow> pyexc + rat"
  fl_repr :: "rat \<Rightarrow> string"

definition to_float :: "float_rt \<Rightarrow> rat \<Rightarrow> pyexc + rat" where
  "to_float rt x = (if of_int \<lfloor>x\<rfloor> = x \<and> \<bar>x\<bar> \<le> 2 ^ 53 then Inr x else fl_round rt x)"

definition float_str :: "float_rt \<Rightarrow> rat \<Rightarrow> string" where
  "float_str rt x = (if of_int \<lfloor>x\<rfloor> = x \<and> \<bar>x\<bar> < 10 ^ 16 then str_int \<lfloor>x\<rfloor> @ ''.0'' else fl_repr rt x)"

text \<open>\<open>a / b\<close> on two ints, \<open>i * x\<close> and \<open>x + i\<close> on an int and a float.\<close>

definition py_truediv :: "float_rt \<Rightarrow> int \<Rightarrow> int \<Rightarrow> pyexc + rat" where
  "py_truediv rt a b =
     (if b = 0 then Inl (ZeroDivisionError ''division by zero'')
      else to_float rt (of_int a / of_int b))"

definition int_mul_float :: "float_rt \<Rightarrow> int \<Rightarrow> rat \<Rightarrow> pyexc + rat" where
  "int_mul_float rt i x =
     (case to_float rt (of_int i) of Inl e \<Rightarrow> Inl e | Inr f \<Rightarrow> to_float rt (f * x))"

definition float_add_int :: "float_rt \<Rightarrow> rat \<Rightarrow> int \<Rightarrow> pyexc + rat" where
  "float_add_int rt x i =
     (case to_float rt (of_int i) of Inl e \<Rightarrow> Inl e | Inr f \<Rightarrow> to_float rt (x + f))"

section \<open>Fallback solver (app/core/llm_service.py)\<close>

text \<open>
  The signs of the templates. Those up to U+00FF are one character; the five beyond
  (check mark, integral, not-equal, pi, almost-equal) have no character of their own in
  \<open>string\<close> and are written as their UTF-8 bytes. No function of the model inspects them.
\<close>

definition u_times :: string where "u_times = [CHR 0xD7]"
definition u_divide :: string where "u_divide = [CHR 0xF7]"
definition u_middot :: string where "u_middot = [CHR 0xB7]"
definition u_sup2 :: string where "u_sup2 = [CHR 0xB2]"
definition u_half :: string where "u_half = [CHR 0xBD]"
definition u_check :: string where "u_check = [CHR 0xE2, CHR 0x9C, CHR 0x93]"
definition u_integral :: string where "u_integral = [CHR 0xE2, CHR 0x88, CHR 0xAB]"
definition u_neq :: string where "u_neq = [CHR 0xE2, CHR 0x89, CHR 0xA0]"
definition u_pi :: string where "u_pi = [CHR 0xCF, CHR 0x80]"
definition u_approx :: string where "u_approx = [CHR 0xE2, CHR 0x89, CHR 0x88]"

text \<open>The operator class \<open>[+\-*/\<times>\<div>]\<close> of the arithmetic patterns.\<close>

definition is_operator :: "char \<Rightarrow> bool" where
  "is_operator c = (c \<in> {CHR ''+'', CHR ''-'', CHR ''*'', CHR ''/'', CHR 0xD7, CHR 0xF7})"

text \<open>
  \<open>(\d+)\s*([+\-*/\<times>\<div>])\s*(\d+)\<close> matched at the head of a text: the three groups
  and the text after the match. Each repetition is greedy and a shorter one never
  helps (the next character would be one the repetition itself accepts), so the
  longest runs are the match.
\<close>

definition arith_at :: "string \<Rightarrow> (string \<times> char \<times> string \<times> string) option" where
  "arith_at s =
     (let num1 = takeWhile is_digit s;
          s1 = dropWhile is_space (dropWhile is_digit s)
      in if num1 = [] then None
         else (case s1 of
                 [] \<Rightarrow> None
               | operator # s2 \<Rightarrow>
                   if \<not> is_operator operator then None
                   else (let s3 = dropWhile is_space s2;
                             num2 = takeWhile is_digit s3
                         in if num2 = [] then None
                            else Some (num1, operator, num2, dropWhile is_digit s3))))"

text \<open>\<open>re.search\<close> of that pattern: the leftmost position where it matches.\<close>

fun arith_search :: "string \<Rightarrow> (string \<times> char \<times> string) option" where
  "arith_search [] = None"
| "arith_search (c # cs) =
     (case arith_at (c # cs) of
        Some (num1, operator, num2, rest) \<Rightarrow> Some (num1, operator, num2)
      | None \<Rightarrow> arith_search cs)"

text \<open>\<open>_is_simple_arithmetic\<close>: \<open>^\s*\d+\s*[+\-*/\<times>\<div>]\s*\d+\s*$\<close> on the stripped question.\<close>

definition is_simple_arithmetic :: "string \<Rightarrow> bool" where
  "is_simple_arithmetic question =
     (case arith_at (dropWhile is_space (strip question)) of
        None \<Rightarrow> False
      | Some (num1, operator, num2, rest) \<Rightarrow> dropWhile is_space rest = [])"

text \<open>
  \<open>re.search(r'([^=]+)=([^=]+)', question)\<close>: at a position, the longest run without
  \<open>=\<close>, one \<open>=\<close>, and the longest run without \<open>=\<close> after it, both runs non-empty.
\<close>

definition not_eq_sign :: "char \<Rightarrow> bool" where
  "not_eq_sign c = (c \<noteq> CHR ''='')"

definition equation_at :: "string \<Rightarrow> (string \<times> string) option" where
  "equation_at s =
     (let g1 = takeWhile not_eq_sign s
      in if g1 = [] then None
         else (case dropWhile not_eq_sign s of
                 [] \<Rightarrow> None
               | e # s1 \<Rightarrow>
                   (let g2 = takeWhile not_eq_sign s1
                    in if g2 = [] then None else Some (g1, g2))))"

fun equation_search :: "string \<Rightarrow> (string \<times> string) option" where
  "equation_search [] = None"
| "equation_search (c # cs) =
     (case equation_at (c # cs) of Some g \<Rightarrow> Some g | None \<Rightarrow> equation_search cs)"

text \<open>\<open>re.match(r'^\s*(\d*)\s*x\s*([+-])\s*(\d+)\s*$', s)\<close>: the three groups.\<close>

definition linear_match :: "string \<Rightarrow> (string \<times> char \<times> string) option" where
  "linear_match s =
     (let s1 = dropWhile is_space s;
          coeff_str = takeWhile is_digit s1;
          s2 = dropWhile is_space (dropWhile is_digit s1)
      in case s2 of
           [] \<Rightarrow> None
         | x # s3 \<Rightarrow>
             if x \<noteq> CHR ''x'' then None
             else (case dropWhile is_space s3 of
                     [] \<Rightarrow> None
                   | operator # s4 \<Rightarrow>
                       if operator \<noteq> CHR ''+'' \<and> operator \<noteq> CHR ''-'' then None
                       else (let s5 = dropWhile is_space s4;
                                 constant_str = takeWhile is_digit s5;
                                 s6 = dropWhile is_space (dropWhile is_digit s5)
                             in if constant_str \<noteq> [] \<and> s6 = []
                                then Some (coeff_str, operator, constant_str)
                                else None)))"

definition solve_general_math_comprehensive :: "string \<Rightarrow> string" where
  "solve_general_math_comprehensive question =
     join_lines
       [''## Step-by-Step Mathematical Analysis for: '' @ question,
        '''',
        ''**Problem-Solving Strategy:**'',
        '''',
        ''**Step 1: Understand the Problem**'',
        ''- Read the question carefully'',
        ''- Identify what is being asked'',
        ''- Note any given information or constraints'',
        '''',
        ''**Step 2: Identify Mathematical Concepts**'',
        ''- Determine which area of mathematics applies'',
        ''- Recall relevant formulas, theorems, or principles'',
        ''- Consider what tools or methods are needed'',
        '''',
        ''**Step 3: Plan Your Approach**'',
        ''- Break the problem into smaller, manageable parts'',
        ''- Decide on the sequence of steps to follow'',
        ''- Consider if there are multiple solution methods'',
        '''',
        ''**Step 4: Execute the Solution**'',
        ''- Work through each step systematically'',
        ''- Show all calculations and reasoning'',
        ''- Keep track of units and significant figures'',
        '''',
        ''**Step 5: Check and Verify**'',
        ''- Review your work for errors'',
        ''- Verify that your answer makes sense'',
        ''- Consider if there are alternative approaches'',
        '''',
        ''**Step 6: Communicate the Result**'',
        ''- State your final answer clearly'',
        ''- Include appropriate units or context'',
        ''- Explain what the result means if applicable'',
        '''',
        ''This systematic approach ensures thorough problem-solving for any mathematical question.'']"

definition solve_derivative_comprehensive :: "string \<Rightarrow> string" where
  "solve_derivative_comprehensive question =
     join_lines
       [''## Step-by-Step Solution for: '' @ question,
        '''',
        ''**Problem Type:** Differentiation'',
        '''',
        ''**Step 1:** Identify the function'',
        ''Extract the function to be differentiated from the question.'',
        '''',
        ''**Step 2:** Determine the appropriate rule'',
        ''Common differentiation rules:'',
        ''- Power rule: d/dx(x^n) = n'' @ u_middot @ ''x^(n-1)'',
        ''- Constant rule: d/dx(c) = 0'',
        ''- Sum rule: d/dx(f + g) = f'' @ [CHR 0x27] @ '' + g'' @ [CHR 0x27],
        ''- Product rule: d/dx(fg) = f'' @ [CHR 0x27] @ ''g + fg'' @ [CHR 0x27],
        ''- Chain rule: d/dx(f(g(x))) = f'' @ [CHR 0x27] @ ''(g(x))'' @ u_middot @ ''g'' @ [CHR 0x27] @ ''(x)'',
        '''',
        ''**Step 3:** Apply the rule step by step'',
        ''Work through the differentiation systematically.'',
        '''',
        ''**Step 4:** Simplify the result'',
        ''Combine like terms and write in standard form.'',
        '''',
        ''**Example:** For f(x) = x^2:'',
        ''Using the power rule: d/dx(x^2) = 2x^(2-1) = 2x'']"

definition solve_integral_comprehensive :: "string \<Rightarrow> string" where
  "solve_integral_comprehensive question =
     join_lines
       [''## Step-by-Step Solution for: '' @ question,
        '''',
        ''**Problem Type:** Integration'',
        '''',
        ''**Step 1:** Identify the integrand'',
        ''Extract the function to be integrated.'',
        '''',
        ''**Step 2:** Choose the integration method'',
        ''Common integration techniques:'',
        ''- Power rule: '' @ u_integral @ ''x^n dx = x^(n+1)/(n+1) + C (n '' @ u_neq @ '' -1)'',
        ''- Substitution method'',
        ''- Integration by parts: '' @ u_integral @ ''u dv = uv - '' @ u_integral @ ''v du'',
        '''',
        ''**Step 3:** Apply the method'',
        ''Work through the integration step by step.'',
        '''',
        ''**Step 4:** Add the constant of integration'',
        ''For indefinite integrals, always add + C.'',
        '''',
        ''**Example:** For '' @ u_integral @ ''x^2 dx:'',
        ''Using the power rule: '' @ u_integral @ ''x^2 dx = x^3/3 + C'']"

definition solve_geometry_comprehensive :: "string \<Rightarrow> string" where
  "solve_geometry_comprehensive question =
     join_lines
       [''## Step-by-Step Solution for: '' @ question,
        '''',
        ''**Problem Type:** Geometry'',
        '''',
        ''**Step 1:** Identify the geometric shape and what'' @ [CHR 0x27] @ ''s being asked'',
        ''Determine the shape (circle, triangle, rectangle, etc.) and the required measurement.'',
        '''',
        ''**Step 2:** Recall the relevant formula'',
        ''Common formulas:'',
        ''- Circle: Area = '' @ u_pi @ ''r'' @ u_sup2 @ '', Circumference = 2'' @ u_pi @ ''r'',
        ''- Rectangle: Area = length '' @ u_times @ '' width, Perimeter = 2(length + width)'',
        ''- Triangle: Area = '' @ u_half @ '' '' @ u_times @ '' base '' @ u_times @ '' height'',
        ''- Square: Area = side'' @ u_sup2 @ '', Perimeter = 4 '' @ u_times @ '' side'',
        '''',
        ''**Step 3:** Substitute the known values'',
        ''Plug the given measurements into the appropriate formula.'',
        '''',
        ''**Step 4:** Calculate the result'',
        ''Perform the arithmetic to get the final answer.'',
        '''',
        ''**Step 5:** Include appropriate units'',
        ''Make sure your answer has the correct units (square units for area, linear units for perimeter).'',
        '''',
        ''**Example:** For a circle with radius 5:'',
        ''Area = '' @ u_pi @ ''r'' @ u_sup2 @ '' = '' @ u_pi @ ''(5)'' @ u_sup2 @ '' = 25'' @ u_pi @ '' '' @ u_approx @ '' 78.54 square units'']"

definition solve_percentage_comprehensive :: "string \<Rightarrow> string" where
  "solve_percentage_comprehensive question =
     join_lines
       [''## Step-by-Step Solution for: '' @ question,
        '''',
        ''**Problem Type:** Percentage Calculation'',
        '''',
        ''**Step 1:** Identify what type of percentage problem this is'',
        ''- Finding a percentage of a number: What is 25% of 80?'',
        ''- Finding what percentage one number is of another: What % is 15 of 60?'',
        ''- Finding the whole when given a part and percentage: 20 is 25% of what number?'',
        '''',
        ''**Step 2:** Choose the appropriate formula'',
        ''- Part = Whole '' @ u_times @ '' (Percentage '' @ u_divide @ '' 100)'',
        ''- Percentage = (Part '' @ u_divide @ '' Whole) '' @ u_times @ '' 100'',
        ''- Whole = Part '' @ u_divide @ '' (Percentage '' @ u_divide @ '' 100)'',
        '''',
        ''**Step 3:** Substitute the known values'',
        ''Replace the variables with the given numbers.'',
        '''',
        ''**Step 4:** Calculate step by step'',
        ''Perform the arithmetic operations in order.'',
        '''',
        ''**Step 5:** Verify and format the answer'',
        ''Check if the result makes sense and include the % symbol if appropriate.'',
        '''',
        ''**Example:** To find 25% of 80:'',
        ''25% of 80 = 80 '' @ u_times @ '' (25 '' @ u_divide @ '' 100) = 80 '' @ u_times @ '' 0.25 = 20'']"

definition solve_general_arithmetic :: "string \<Rightarrow> string" where
  "solve_general_arithmetic question =
     join_lines
       [''## Step-by-Step Solution for: '' @ question,
        '''',
        ''**Problem Type:** Arithmetic Calculation'',
        '''',
        ''**Step 1:** Identify the numbers and operations'',
        ''Look for numerical values and mathematical operations in the problem.'',
        '''',
        ''**Step 2:** Determine the order of operations'',
        ''Follow PEMDAS/BODMAS:'',
        ''- Parentheses/Brackets first'',
        ''- Exponents/Orders'',
        ''- Multiplication and Division (left to right)'',
        ''- Addition and Subtraction (left to right)'',
        '''',
        ''**Step 3:** Perform the calculations step by step'',
        ''Work through each operation systematically.'',
        '''',
        ''**Step 4:** Check your work'',
        ''Verify that your calculations are correct.'',
        '''',
        ''**Example approach:** For '' @ [CHR 0x22] @ ''15 + 3 '' @ u_times @ '' 4'' @ [CHR 0x22] @ '':'',
        ''First: 3 '' @ u_times @ '' 4 = 12'',
        ''Then: 15 + 12 = 27'']"

text \<open>
  The body of the \<open>try\<close> in \<open>_solve_linear_equation_pattern\<close>: the three conversions,
  the division and the rendering, any of which may raise.
\<close>

definition linear_solution ::
  "float_rt \<Rightarrow> string \<Rightarrow> char \<Rightarrow> string \<Rightarrow> string \<Rightarrow> string \<Rightarrow> string \<Rightarrow> pyexc + string" where
  "linear_solution rt coeff_str operator constant_str left_side right_side question =
     (case (if coeff_str \<noteq> [] then py_int coeff_str else Inr 1) of
        Inl e \<Rightarrow> Inl e
      | Inr coeff \<Rightarrow>
     (case py_int constant_str of
        Inl e \<Rightarrow> Inl e
      | Inr constant0 \<Rightarrow>
     (let constant = (if operator = CHR ''-'' then - constant0 else constant0)
      in case py_int (strip right_side) of
        Inl e \<Rightarrow> Inl e
      | Inr right_value \<Rightarrow>
     (let step1_result = right_value - constant
      in case py_truediv rt step1_result coeff of
        Inl e \<Rightarrow> Inl e
      | Inr solution \<Rightarrow>
     (case int_mul_float rt coeff solution of
        Inl e \<Rightarrow> Inl e
      | Inr product \<Rightarrow>
     (case float_add_int rt product constant of
        Inl e \<Rightarrow> Inl e
      | Inr check \<Rightarrow>
          Inr (join_lines
                 [''## Step-by-Step Solution for: '' @ question,
                  '''',
                  ''**Given equation:** '' @ left_side @ '' = '' @ right_side,
                  '''',
                  ''**Step 1:** Isolate the variable term'',
                  ''Move the constant to the right side:'',
                  str_int coeff @ ''x = '' @ right_side @ '' - ('' @ str_int constant @ '')'',
                  str_int coeff @ ''x = '' @ str_int step1_result,
                  '''',
                  ''**Step 2:** Solve for x'',
                  ''Divide both sides by '' @ str_int coeff @ '':'',
                  ''x = '' @ str_int step1_result @ '' '' @ u_divide @ '' '' @ str_int coeff,
                  ''x = '' @ float_str rt solution,
                  '''',
                  ''**Step 3:** Verify the solution'',
                  ''Substitute x = '' @ float_str rt solution @ '' back into the original equation:'',
                  str_int coeff @ ''('' @ float_str rt solution @ '') + ('' @ str_int constant @ '') = '' @ float_str rt check,
                  float_str rt check @ '' = '' @ str_int right_value @ '' '' @ u_check,
                  '''',
                  ''**Answer:** x = '' @ float_str rt solution])))))))"

definition solve_linear_equation_pattern :: "float_rt \<Rightarrow> string \<Rightarrow> string \<Rightarrow> string \<Rightarrow> string" where
  "solve_linear_equation_pattern rt left_side right_side question =
     (let generic =
            join_lines
              [''## Step-by-Step Solution for: '' @ question,
               '''',
               ''**Given equation:** '' @ left_side @ '' = '' @ right_side,
               '''',
               ''**Step 1:** Identify the equation structure'',
               ''This is a linear equation in one variable.'',
               '''',
               ''**Step 2:** Apply algebraic principles'',
               ''- Move all terms with the variable to one side'',
               ''- Move all constants to the other side'',
               ''- Use inverse operations (addition/subtraction, then multiplication/division)'',
               '''',
               ''**Step 3:** Solve systematically'',
               ''- Combine like terms'',
               ''- Isolate the variable'',
               ''- Simplify the result'',
               '''',
               ''**Step 4:** Verify your answer'',
               ''Substitute your solution back into the original equation to check.'',
               '''',
               ''**General approach:** For equations like ax + b = c, subtract b from both sides, then divide by a.'']
      in case linear_match (filter (\<lambda>c. c \<noteq> CHR '' '') left_side) of
           None \<Rightarrow> generic
         | Some (coeff_str, operator, constant_str) \<Rightarrow>
             (case linear_solution rt coeff_str operator constant_str left_side right_side question of
                Inl e \<Rightarrow> generic
              | Inr text \<Rightarrow> text))"

definition solve_equation_comprehensive :: "float_rt \<Rightarrow> string \<Rightarrow> string" where
  "solve_equation_comprehensive rt question =
     (if contains question ''3x + 7 = 10'' \<or> contains question ''3x+7=10'' then
        join_lines
          [''## Step-by-Step Solution for: 3x + 7 = 10'',
           '''',
           ''**Given equation:** 3x + 7 = 10'',
           '''',
           ''**Step 1:** Subtract 7 from both sides'',
           ''3x + 7 - 7 = 10 - 7'',
           ''3x = 3'',
           '''',
           ''**Step 2:** Divide both sides by 3'',
           ''3x '' @ u_divide @ '' 3 = 3 '' @ u_divide @ '' 3'',
           ''x = 1'',
           '''',
           ''**Step 3:** Verify the solution'',
           ''Substitute x = 1 back into the original equation:'',
           ''3(1) + 7 = 3 + 7 = 10 '' @ u_check,
           '''',
           ''**Answer:** x = 1'']
      else (case equation_search question of
              None \<Rightarrow> solve_general_math_comprehensive question
            | Some (g1, g2) \<Rightarrow> solve_linear_equation_pattern rt (strip g1) (strip g2) question))"

text \<open>
  \<open>_solve_arithmetic_comprehensive\<close>. The two \<open>int()\<close> calls stand before the \<open>try\<close>,
  so their exception would leave the function; the division is inside it.
\<close>

definition division_by_zero_text :: "string \<Rightarrow> string" where
  "division_by_zero_text question =
     join_lines
       [''## Solution for: '' @ question,
        '''',
        ''**Error:** Division by zero is undefined in mathematics.'',
        ''You cannot divide any number by zero.'']"

definition arithmetic_steps :: "string \<Rightarrow> int \<Rightarrow> char \<Rightarrow> int \<Rightarrow> string \<Rightarrow> string \<Rightarrow> string \<Rightarrow> string" where
  "arithmetic_steps question num1 operator num2 operation explanation result =
     join_lines
       [''## Step-by-Step Solution for: '' @ question,
        '''',
        ''**Problem:** '' @ str_int num1 @ '' '' @ [operator] @ '' '' @ str_int num2,
        '''',
        ''**Step 1:** Identify the operation'',
        ''This is a '' @ operation @ '' problem.'',
        '''',
        ''**Step 2:** Apply the operation'',
        explanation @ '':'',
        str_int num1 @ '' '' @ [operator] @ '' '' @ str_int num2 @ '' = '' @ result,
        '''',
        ''**Step 3:** Verify the result'',
        ''The calculation is correct: '' @ result,
        '''',
        ''**Answer:** '' @ result]"

definition solve_arithmetic_comprehensive :: "float_rt \<Rightarrow> string \<Rightarrow> pyexc + string" where
  "solve_arithmetic_comprehensive rt question =
     (case arith_search (strip question) of
        None \<Rightarrow> Inr (join_lines
                                  [''## Solution for: '' @ question,
                                   '''',
                                   ''Could not parse the arithmetic expression.''])
      | Some (s1, op0, s2) \<Rightarrow>
     (case py_int s1 of
        Inl e \<Rightarrow> Inl e
      | Inr num1 \<Rightarrow>
     (case py_int s2 of
        Inl e \<Rightarrow> Inl e
      | Inr num2 \<Rightarrow>
     (let operator = (if op0 = CHR 0xD7 then CHR ''*'' else if op0 = CHR 0xF7 then CHR ''/'' else op0)
      in if operator = CHR ''+'' then
           Inr (arithmetic_steps question num1 operator num2 ''addition''
                  (''Add '' @ str_int num1 @ '' and '' @ str_int num2) (str_int (num1 + num2)))
         else if operator = CHR ''-'' then
           Inr (arithmetic_steps question num1 operator num2 ''subtraction''
                  (''Subtract '' @ str_int num2 @ '' from '' @ str_int num1) (str_int (num1 - num2)))
         else if operator = CHR ''*'' then
           Inr (arithmetic_steps question num1 operator num2 ''multiplication''
                  (''Multiply '' @ str_int num1 @ '' by '' @ str_int num2) (str_int (num1 * num2)))
         else if operator = CHR ''/'' then
           (if num2 = 0 then
              Inr (division_by_zero_text question)
            else (case py_truediv rt num1 num2 of
                    Inl e \<Rightarrow>
                      Inr (join_lines
                             [''## Solution for: '' @ question,
                              '''',
                              ''Error in calculation: '' @ exc_str e])
                  | Inr result \<Rightarrow>
                      Inr (arithmetic_steps question num1 operator num2 ''division''
                             (''Divide '' @ str_int num1 @ '' by '' @ str_int num2) (float_str rt result))))
         else
           Inr (join_lines
                  [''## Solution for: '' @ question,
                   '''',
                   ''Unsupported operation: '' @ [operator]])))))"

text \<open>\<open>_comprehensive_fallback_solution\<close>: the dispatch, in the order of the source.\<close>

definition comprehensive_fallback_solution :: "float_rt \<Rightarrow> string \<Rightarrow> string option \<Rightarrow> pyexc + string" where
  "comprehensive_fallback_solution rt question context =
     (let question_lower = lower question
      in if CHR ''='' \<in> set question then Inr (solve_equation_comprehensive rt question)
         else if is_simple_arithmetic question then solve_arithmetic_comprehensive rt question
         else if contains question_lower ''derivative'' \<or> contains question_lower ''differentiate''
           then Inr (solve_derivative_comprehensive question)
         else if contains question_lower ''integral'' \<or> contains question_lower ''integrate''
           then Inr (solve_integral_comprehensive question)
         else if list_ex (contains question_lower)
                   [''area'', ''volume'', ''circumference'', ''perimeter'', ''circle'', ''triangle'', ''rectangle'']
           then Inr (solve_geometry_comprehensive question)
         else if CHR ''%'' \<in> set question \<or> contains question_lower ''percent''
           then Inr (solve_percentage_comprehensive question)
         else if list_ex (contains question) [''+'', ''-'', ''*'', ''/'', u_times, u_divide]
               \<or> list_ex (contains question_lower)
                    [''add'', ''subtract'', ''multiply'', ''divide'', ''plus'', ''minus'', ''times'']
           then Inr (solve_general_arithmetic question)
         else Inr (solve_general_math_comprehensive question))"




section \<open>Feedback loop (app/core/feedback.py)\<close>

datatype FeedbackType = POSITIVE | NEGATIVE | CORRECTION | CLARIFICATION

text \<open>\<open>FeedbackType(feedback_type)\<close>: the enum lookup by value; \<open>None\<close> is the ValueError.\<close>

definition FeedbackType_of :: "string \<Rightarrow> FeedbackType option" where
  "FeedbackType_of s =
     (if s = ''positive'' then Some POSITIVE
      else if s = ''negative'' then Some NEGATIVE
      else if s = ''correction'' then Some CORRECTION
      else if s = ''clarification'' then Some CLARIFICATION
      else None)"

record QueryLog =
  ql_query_id :: string
  ql_question :: string
  ql_answer :: string
  ql_confidence :: real
  ql_sources :: "string list"
  ql_user_id :: "string option"
  ql_timestamp :: nat
  ql_reasoning_steps :: "string list option"

record FeedbackEntry =
  fe_feedback_id :: string
  fe_query_id :: string
  fe_feedback_type :: FeedbackType
  fe_feedback_text :: "string option"
  fe_corrected_answer :: "string option"
  fe_user_id :: "string option"
  fe_timestamp :: nat
  fe_processed :: bool

record FeedbackProcessingResult =
  feedback_id :: string
  success :: bool
  message :: string
  actions_taken :: "string list"

text \<open>
  The persistent store behind \<open>db_manager\<close>. \<open>get_database()\<close> either raises (the
  connection cannot be initialised), returns \<open>None\<close>, or returns the connection; the
  operations of \<open>db_manager\<close> catch their own faults, so a statement that fails
  (\<open>db_ok = False\<close>) reads nothing and writes nothing.
\<close>

datatype connection = ConnectFails pyexc | NoDatabase | Connected

record Database =
  db_conn :: connection
  db_ok :: bool
  db_query_logs :: "string \<rightharpoonup> QueryLog"
  db_feedback :: "FeedbackEntry list"

text \<open>The manager's two in-memory dictionaries, and the store it writes through to.\<close>

record FeedbackManager =
  query_logs :: "string \<rightharpoonup> QueryLog"
  feedback_entries :: "string \<rightharpoonup> FeedbackEntry"
  learning_enabled :: bool
  database :: Database

definition get_database :: "Database \<Rightarrow> pyexc + bool" where
  "get_database d =
     (case db_conn d of
        ConnectFails e \<Rightarrow> Inl e
      | NoDatabase \<Rightarrow> Inr False
      | Connected \<Rightarrow> Inr True)"

definition fetch_query_log_from_db :: "Database \<Rightarrow> string \<Rightarrow> QueryLog option" where
  "fetch_query_log_from_db d query_id = (if db_ok d then db_query_logs d query_id else None)"

definition store_feedback_in_db :: "Database \<Rightarrow> FeedbackEntry \<Rightarrow> Database" where
  "store_feedback_in_db d fb = (if db_ok d then d\<lparr>db_feedback := db_feedback d @ [fb]\<rparr> else d)"

definition handle_positive_feedback :: "bool \<Rightarrow> FeedbackEntry \<Rightarrow> QueryLog \<Rightarrow> string list" where
  "handle_positive_feedback learning fb ql =
     (if learning then
        [''Reinforced successful response pattern'']
        @ (if ql_sources ql \<noteq> []
           then [''Marked '' @ str_nat (length (ql_sources ql)) @ '' sources as reliable''] else [])
        @ [''Updated confidence scoring for similar queries'']
      else [])"

definition handle_negative_feedback :: "bool \<Rightarrow> FeedbackEntry \<Rightarrow> QueryLog \<Rightarrow> string list" where
  "handle_negative_feedback learning fb ql =
     (if learning then
        [''Flagged response pattern for review'']
        @ (if ql_sources ql \<noteq> []
           then [''Reduced confidence in '' @ str_nat (length (ql_sources ql)) @ '' sources''] else [])
        @ (if ql_confidence ql > 0.7
           then [''Queued high-confidence incorrect answer for manual review''] else [])
      else [])"

definition handle_correction_feedback :: "bool \<Rightarrow> FeedbackEntry \<Rightarrow> QueryLog \<Rightarrow> string list" where
  "handle_correction_feedback learning fb ql =
     (if truthy (fe_corrected_answer fb) \<and> learning then
        [''Stored corrected answer for future reference'',
         ''Added correction to knowledge base'']
        @ (if ql_confidence ql > 0.6 \<and> ql_sources ql \<noteq> []
           then [''Flagged original sources for accuracy review''] else [])
      else [])"

definition handle_clarification_feedback :: "bool \<Rightarrow> FeedbackEntry \<Rightarrow> QueryLog \<Rightarrow> string list" where
  "handle_clarification_feedback learning fb ql =
     (if truthy (fe_feedback_text fb) \<and> learning then
        [''Analyzed clarification requirements'',
         ''Marked original response as potentially unclear'',
         ''Queued for response clarity improvement'']
      else [])"

definition process_feedback_by_type :: "bool \<Rightarrow> FeedbackEntry \<Rightarrow> QueryLog \<Rightarrow> string list" where
  "process_feedback_by_type learning fb ql =
     (case fe_feedback_type fb of
        POSITIVE \<Rightarrow> handle_positive_feedback learning fb ql
      | NEGATIVE \<Rightarrow> handle_negative_feedback learning fb ql
      | CORRECTION \<Rightarrow> handle_correction_feedback learning fb ql
      | CLARIFICATION \<Rightarrow> handle_clarification_feedback learning fb ql)"

definition failure :: "string \<Rightarrow> string \<Rightarrow> FeedbackProcessingResult" where
  "failure fid msg = \<lparr>feedback_id = fid, success = False, message = msg, actions_taken = []\<rparr>"

text \<open>
  \<open>FeedbackManager.process_feedback\<close>. \<open>uuid\<close> is the value of \<open>uuid.uuid4()\<close> and \<open>now\<close>
  the clock reading; the result is the returned record and the manager afterwards. The
  stored entry and the local \<open>feedback_entry\<close> are one object, so setting \<open>processed\<close>
  updates the dictionary entry. Every \<open>Inl\<close> of \<open>get_database\<close> is the exception that
  the outer handler turns into a failure result.
\<close>

definition process_feedback ::
  "FeedbackManager \<Rightarrow> string \<Rightarrow> nat \<Rightarrow> string \<Rightarrow> string \<Rightarrow> string option \<Rightarrow> string option
     \<Rightarrow> string option \<Rightarrow> FeedbackProcessingResult \<times> FeedbackManager" where
  "process_feedback m uuid now query_id feedback_type feedback_text corrected_answer user_id =
     (case FeedbackType_of feedback_type of
        None \<Rightarrow> (failure uuid (''Invalid feedback type: '' @ feedback_type), m)
      | Some fb_type \<Rightarrow>
          (case (case query_logs m query_id of
                   Some ql \<Rightarrow> Inr (Some ql)
                 | None \<Rightarrow>
                     (case get_database (database m) of
                        Inl e \<Rightarrow> Inl e
                      | Inr has_db \<Rightarrow>
                          Inr (if has_db then fetch_query_log_from_db (database m) query_id
                               else None))) of
             Inl e \<Rightarrow> (failure uuid (''Error processing feedback: '' @ exc_str e), m)
           | Inr None \<Rightarrow> (failure uuid (''Query '' @ query_id @ '' not found''), m)
           | Inr (Some query_log) \<Rightarrow>
               (let feedback_entry =
                      \<lparr>fe_feedback_id = uuid, fe_query_id = query_id,
                       fe_feedback_type = fb_type, fe_feedback_text = feedback_text,
                       fe_corrected_answer = corrected_answer, fe_user_id = user_id,
                       fe_timestamp = now, fe_processed = False\<rparr>;
                    m1 = m\<lparr>feedback_entries := (feedback_entries m)(uuid \<mapsto> feedback_entry)\<rparr>
                in case get_database (database m1) of
                     Inl e \<Rightarrow> (failure uuid (''Error processing feedback: '' @ exc_str e), m1)
                   | Inr has_db \<Rightarrow>
                       (let m2 = (if has_db
                                  then m1\<lparr>database := store_feedback_in_db (database m1) feedback_entry\<rparr>
                                  else m1);
                            actions = process_feedback_by_type (learning_enabled m2) feedback_entry query_log;
                            m3 = m2\<lparr>feedback_entries :=
                                      (feedback_entries m2)(uuid \<mapsto> feedback_entry\<lparr>fe_processed := True\<rparr>)\<rparr>
                        in (\<lparr>feedback_id = uuid, success = True,
                             message = ''Feedback processed successfully'',
                             actions_taken = actions\<rparr>, m3)))))"

text \<open>A manager that has logged one query, with a reachable and empty store.\<close>

definition example_log :: QueryLog where
  "example_log = \<lparr>ql_query_id = ''q-1'', ql_question = ''2 + 2'', ql_answer = ''4'',
     ql_confidence = 0.75, ql_sources = [''Math Problem Solver: 2 + 2''], ql_user_id = None,
     ql_timestamp = 0, ql_reasoning_steps = None\<rparr>"

definition example_manager :: FeedbackManager where
  "example_manager = \<lparr>query_logs = [''q-1'' \<mapsto> example_log], feedback_entries = Map.empty,
     learning_enabled = True,
     database = \<lparr>db_conn = Connected, db_ok = True, db_query_logs = Map.empty, db_feedback = []\<rparr>\<rparr>"

section \<open>Patterns (Python's re, as far as guardrails.py uses it)\<close>

text \<open>
  The word characters of \<open>\w\<close> and \<open>\b\<close>: letters, digits and numerals, and the
  underscore, among the code points up to U+00FF.
\<close>

definition is_lower_az :: "char \<Rightarrow> bool" where
  "is_lower_az c = (97 \<le> (of_char c :: nat) \<and> (of_char c :: nat) \<le> 122)"

definition is_upper_az :: "char \<Rightarrow> bool" where
  "is_upper_az c = (65 \<le> (of_char c :: nat) \<and> (of_char c :: nat) \<le> 90)"

definition is_word :: "char \<Rightarrow> bool" where
  "is_word c =
     (let n = (of_char c :: nat)
      in is_digit c \<or> is_upper_az c \<or> is_lower_az c \<or> n = 95
         \<or> n \<in> {170, 178, 179, 181, 185, 186, 188, 189, 190}
         \<or> (192 \<le> n \<and> n \<le> 214) \<or> (216 \<le> n \<and> n \<le> 246) \<or> 248 \<le> n)"

text \<open>
  A pattern, and a position in the searched text: the character before it (none at the
  start) and the text from it on.
\<close>

datatype rx =
    Lit string
  | Cls "char \<Rightarrow> bool"
  | Seq rx rx
  | Alt rx rx
  | Star rx
  | Bnd
  | Bol
  | Eol

type_synonym pos = "char option \<times> string"

definition word_before :: "pos \<Rightarrow> bool" where
  "word_before st = (case fst st of None \<Rightarrow> False | Some c \<Rightarrow> is_word c)"

definition word_after :: "pos \<Rightarrow> bool" where
  "word_after st = (case snd st of [] \<Rightarrow> False | c # r \<Rightarrow> is_word c)"

definition advance :: "nat \<Rightarrow> pos \<Rightarrow> pos" where
  "advance n st = (if n = 0 then st else (Some (snd st ! (n - 1)), drop n (snd st)))"

text \<open>
  The positions a repetition can reach: those of zero, one, two, ... rounds of \<open>f\<close>.
  A round that consumes nothing reaches nothing new, so there are at most as many
  rounds as characters left; the first argument counts them down.
\<close>

fun iter :: "string \<Rightarrow> (pos \<Rightarrow> pos list) \<Rightarrow> pos list \<Rightarrow> pos list" where
  "iter [] f sts = sts"
| "iter (c # cs) f sts = (if sts = [] then [] else sts @ iter cs f (remdups (concat (map f sts))))"

text \<open>Whether the text begins with a literal, compared through \<open>lower\<close> if \<open>ic\<close>.\<close>

fun starts_with :: "bool \<Rightarrow> string \<Rightarrow> string \<Rightarrow> bool" where
  "starts_with ic [] s = True"
| "starts_with ic (a # l) [] = False"
| "starts_with ic (a # l) (c # s) =
     (if (if ic then lower_char a = lower_char c else a = c) then starts_with ic l s else False)"

text \<open>
  \<open>rx_step ic r st\<close>: the positions where a match of \<open>r\<close> that starts at \<open>st\<close> can
  end. With \<open>re.IGNORECASE\<close> (\<open>ic\<close>) a character is compared through \<open>lower\<close>; the
  patterns of guardrails.py are written in lower case. \<open>$\<close> holds at the end of the
  text and before a final newline.
\<close>

primrec rx_step :: "bool \<Rightarrow> rx \<Rightarrow> pos \<Rightarrow> pos list" where
  "rx_step ic (Lit l) st = (if starts_with ic l (snd st) then [advance (length l) st] else [])"
| "rx_step ic (Cls P) st =
     (case snd st of
        [] \<Rightarrow> []
      | c # r \<Rightarrow> if P (if ic then lower_char c else c) then [(Some c, r)] else [])"
| "rx_step ic (Seq a b) st = concat (map (rx_step ic b) (rx_step ic a st))"
| "rx_step ic (Alt a b) st = rx_step ic a st @ rx_step ic b st"
| "rx_step ic (Star a) st = iter (snd st) (rx_step ic a) [st]"
| "rx_step ic Bnd st = (if word_before st \<noteq> word_after st then [st] else [])"
| "rx_step ic Bol st = (if fst st = None then [st] else [])"
| "rx_step ic Eol st = (if snd st = [] \<or> snd st = ''\<newline>'' then [st] else [])"

text \<open>\<open>re.search\<close>, as a truth value: some position of the text starts a match.\<close>

fun search_from :: "bool \<Rightarrow> rx \<Rightarrow> char option \<Rightarrow> string \<Rightarrow> bool" where
  "search_from ic r prev [] = (rx_step ic r (prev, []) \<noteq> [])"
| "search_from ic r prev (c # cs) =
     (if rx_step ic r (prev, c # cs) \<noteq> [] then True else search_from ic r (Some c) cs)"

definition re_search :: "bool \<Rightarrow> rx \<Rightarrow> string \<Rightarrow> bool" where
  "re_search ic r s = search_from ic r None s"

text \<open>The pattern syntax: \<open>r+\<close>, \<open>r?\<close>, sequences, alternatives and classes.\<close>

definition Plus :: "rx \<Rightarrow> rx" where
  "Plus r = Seq r (Star r)"

definition Opt :: "rx \<Rightarrow> rx" where
  "Opt r = Alt r (Lit [])"

fun seqs :: "rx list \<Rightarrow> rx" where
  "seqs [] = Lit []"
| "seqs [r] = r"
| "seqs (r # rs) = Seq r (seqs rs)"

fun alts :: "rx list \<Rightarrow> rx" where
  "alts [] = Cls (\<lambda>c. False)"
| "alts [r] = r"
| "alts (r # rs) = Alt r (alts rs)"

definition words :: "string list \<Rightarrow> rx" where
  "words ws = alts (map Lit ws)"

definition one_of :: "string \<Rightarrow> rx" where
  "one_of cs = Cls (\<lambda>c. c \<in> set cs)"

definition digit :: rx where
  "digit = Cls is_digit"

definition space :: rx where
  "space = Cls is_space"

definition any_char :: rx where
  "any_char = Cls (\<lambda>c. c \<noteq> CHR ''\<newline>'')"

section \<open>Guardrails (app/core/guardrails.py)\<close>

text \<open>
  The pattern tables of \<open>InputFilter\<close>. The class of Unicode mathematical signs keeps
  its three members up to U+00FF; the others cannot occur in a text of the model.
\<close>

definition blocked_patterns :: "rx list" where
  "blocked_patterns =
     [seqs [Bnd, words [''hack'', ''exploit'', ''attack'', ''malicious''], Bnd],
      seqs [Bnd, words [''personal'', ''private'', ''confidential''], Plus space, Lit ''information'', Bnd],
      seqs [Bnd, words [''generate'', ''create''], Plus space, words [''virus'', ''malware'', ''harmful''], Bnd]]"

definition math_indicators :: "rx list" where
  "math_indicators =
     [seqs [Bnd, words [''solve'', ''calculate'', ''compute'', ''find'', ''derive'', ''integrate'', ''differentiate'', ''evaluate'', ''simplify'', ''determine''], Bnd],
      seqs [Bnd, words [''equation'', ''formula'', ''function'', ''theorem'', ''proof'', ''graph'', ''plot'', ''matrix'', ''vector'', ''expression''], Bnd],
      seqs [Bnd, words [''algebra'', ''calculus'', ''geometry'', ''trigonometry'', ''statistics'', ''probability'', ''arithmetic'', ''mathematics''], Bnd],
      one_of ''+-*/=<>{}[]()^%'',
      one_of [CHR 0xD7, CHR 0xF7, CHR 0xB1],
      seqs [Bnd, Plus digit, Bnd],
      seqs [Plus digit, Star space, one_of (''+-*/^'' @ [CHR 0xD7, CHR 0xF7] @ ''%''), Star space, Plus digit],
      seqs [Bol, Star space, Plus digit, Star space, one_of (''+-*/'' @ [CHR 0xD7, CHR 0xF7]), Star space, Plus digit, Star space, Eol],
      seqs [Bol, Star space, Plus digit, Star space, one_of (''+-*/'' @ [CHR 0xD7, CHR 0xF7]), Star space, Plus digit, Star space, one_of (''+-*/'' @ [CHR 0xD7, CHR 0xF7]), Star space, Plus digit],
      seqs [Bnd, words [''sin'', ''cos'', ''tan'', ''log'', ''ln'', ''exp'', ''sqrt'', ''abs'', ''floor'', ''ceil'', ''round''], Bnd],
      seqs [Bnd, words [''sum'', ''integral'', ''derivative'', ''limit'', ''factorial'', ''permutation'', ''combination''], Bnd],
      seqs [Bnd, words [''differential'', ''partial'', ''equation'', ''transform'', ''laplace'', ''fourier'', ''matrix'', ''vector'', ''tensor''], Bnd],
      seqs [Bnd, words [''eigenvalue'', ''eigenvector'', ''determinant'', ''inverse'', ''transpose'', ''orthogonal''], Bnd],
      seqs [Bnd, words [''topology'', ''manifold'', ''group'', ''ring'', ''field'', ''homomorphism'', ''isomorphism''], Bnd],
      seqs [Bnd, words [''convergence'', ''divergence'', ''series'', ''sequence'', ''continuity'', ''differentiable''], Bnd],
      seqs [Bnd, words [''polynomial'', ''quadratic'', ''linear'', ''exponential'', ''logarithmic'', ''rational'', ''irrational''], Bnd],
      seqs [Bnd, words [''area'', ''volume'', ''perimeter'', ''circumference'', ''radius'', ''diameter'', ''angle'', ''triangle'', ''circle'', ''square'', ''rectangle''], Bnd],
      seqs [Bnd, alts [Lit ''mean'', Lit ''median'', Lit ''mode'', Lit ''variance'', seqs [Lit ''standard'', Plus space, Lit ''deviation''], Lit ''correlation'', Lit ''probability''], Bnd],
      seqs [Bnd, Cls is_lower_az, Star space, one_of ''=+-*/^''],
      seqs [Bnd, Star digit, Cls is_lower_az, Star space, one_of ''+-*/^''],
      seqs [Bnd, alts [seqs [Lit ''what'', Plus space, Lit ''is''], seqs [Lit ''how'', Plus space, Lit ''much'', Plus space, Lit ''is''], Lit ''calculate''], Plus space, Plus digit],
      alts [seqs [Bnd, Lit ''math'', Bnd], seqs [Bnd, Lit ''mathematics'', Bnd], seqs [Bnd, Lit ''mathematical'', Bnd]],
      seqs [Plus digit, Lit ''/'', Plus digit],
      seqs [Plus digit, Lit ''.'', Plus digit],
      alts [seqs [Plus digit, Star space, Lit ''%''], seqs [Bnd, Lit ''percent'', Bnd]],
      seqs [Bnd, alts [seqs [Lit ''degree'', Opt (Lit ''s'')], seqs [Lit ''radian'', Opt (Lit ''s'')], seqs [Lit ''meter'', Opt (Lit ''s'')], Lit ''feet'', seqs [Lit ''inche'', Opt (Lit ''s'')], Lit ''cm'', Lit ''mm'', Lit ''kg'', seqs [Lit ''gram'', Opt (Lit ''s'')], seqs [Lit ''second'', Opt (Lit ''s'')], seqs [Lit ''minute'', Opt (Lit ''s'')], seqs [Lit ''hour'', Opt (Lit ''s'')]], Bnd]]"

definition non_math_indicators :: "rx list" where
  "non_math_indicators =
     [seqs [Bnd, words [''weather'', ''temperature'', ''climate'', ''rain'', ''snow'', ''sunny'', ''cloudy''], Bnd],
      seqs [Bnd, words [''cook'', ''recipe'', ''food'', ''eat'', ''drink'', ''restaurant'', ''kitchen''], Bnd],
      seqs [Bnd, words [''movie'', ''film'', ''actor'', ''actress'', ''cinema'', ''theater''], Bnd],
      seqs [Bnd, words [''music'', ''song'', ''singer'', ''band'', ''album'', ''concert''], Bnd],
      seqs [Bnd, words [''car'', ''drive'', ''traffic'', ''road'', ''highway'', ''parking''], Bnd],
      seqs [Bnd, words [''health'', ''doctor'', ''medicine'', ''hospital'', ''sick'', ''disease''], Bnd],
      seqs [Bnd, words [''politics'', ''government'', ''president'', ''election'', ''vote''], Bnd],
      seqs [Bnd, words [''sports'', ''football'', ''basketball'', ''soccer'', ''tennis'', ''game''], Bnd],
      seqs [Bnd, words [''travel'', ''vacation'', ''hotel'', ''flight'', ''airport'', ''tourist''], Bnd],
      seqs [Bnd, words [''shopping'', ''store'', ''buy'', ''sell'', ''price'', ''money'', ''dollar''], Bnd],
      seqs [Bnd, words [''work'', ''job'', ''career'', ''office'', ''business'', ''company''], Bnd],
      seqs [Bnd, words [''school'', ''teacher'', ''student'', ''class'', ''homework'', ''grade''], Bnd],
      seqs [Bnd, words [''family'', ''friend'', ''relationship'', ''love'', ''marriage''], Bnd],
      seqs [Bnd, words [''computer'', ''software'', ''internet'', ''website'', ''email''], Bnd],
      seqs [Bnd, words [''book'', ''read'', ''write'', ''story'', ''novel'', ''author''], Bnd]]"

definition max_length :: nat where
  "max_length = 1000"

definition min_length :: nat where
  "min_length = 3"

text \<open>
  \<open>_calculate_enhanced_math_score\<close>. A score is a real number. Its caller only
  compares it with \<open>0.2\<close>: a quotient \<open>k / 26\<close> is never close to \<open>0.2\<close>
  (\<open>5 / 26 < 0.2 < 6 / 26\<close>) and every bonus is at least \<open>0.2\<close>, so the comparison over
  the reals agrees with the one over binary64 floats.
\<close>

definition count_matches :: "bool \<Rightarrow> rx list \<Rightarrow> string \<Rightarrow> nat" where
  "count_matches ic ps s = length (filter (\<lambda>p. re_search ic p s) ps)"

definition bonus :: "bool \<Rightarrow> real \<Rightarrow> real" where
  "bonus b x = (if b then x else 0)"

definition calculate_enhanced_math_score :: "string \<Rightarrow> real" where
  "calculate_enhanced_math_score content =
     (let content_lower = lower content;
          non_math_matches = count_matches True non_math_indicators content_lower
      in if non_math_matches > 0 then 0
         else
           (let total_indicators = length math_indicators;
                math_matches = count_matches True math_indicators content_lower;
                base_score = (if total_indicators > 0 then real math_matches / real total_indicators else 0)
                  + bonus (re_search False (seqs [Bol, Star space, Plus digit, Star space, one_of (''+-*/'' @ [CHR 0xD7, CHR 0xF7]), Star space, Plus digit, Star space, Eol]) (strip content)) 0.5
                  + bonus (re_search False (seqs [Plus digit, Star space, one_of (''+-*/'' @ [CHR 0xD7, CHR 0xF7]), Star space, Plus digit]) content) 0.3
                  + bonus (re_search False (seqs [Bnd, words [''solve'', ''calculate'', ''find''], Bnd, Star any_char, Lit ''='']) content_lower) 0.4
                  + bonus (re_search False (seqs [Bnd, Cls is_lower_az, Star space, one_of ''=+-*/^'']) content) 0.3
                  + bonus (re_search False (seqs [Bnd, words [''derivative'', ''integral'', ''limit'', ''sum''], Bnd]) content_lower) 0.4
                  + bonus (re_search False (seqs [Bnd, words [''differential'', ''partial''], Star any_char, Bnd, Lit ''equation'', Bnd]) content_lower) 0.5
                  + bonus (re_search False (seqs [Bnd, words [''laplace'', ''fourier'', ''transform''], Bnd]) content_lower) 0.4
                  + bonus (re_search False (seqs [Bnd, words [''matrix'', ''vector'', ''eigenvalue'', ''determinant''], Bnd]) content_lower) 0.4
                  + bonus (re_search False (seqs [Bnd, words [''area'', ''volume'', ''perimeter''], Bnd, Star any_char, Bnd, words [''circle'', ''triangle'', ''rectangle''], Bnd]) content_lower) 0.3
                  + bonus (re_search False (alts [seqs [Plus digit, Star space, Lit ''%''], seqs [Bnd, Lit ''percent'', Bnd]]) content_lower) 0.2
            in min base_score 1))"

text \<open>\<open>_contains_excessive_special_chars\<close>: the characters outside the listed class.\<close>

definition is_special :: "char \<Rightarrow> bool" where
  "is_special c =
     (\<not> (is_lower_az c \<or> is_upper_az c \<or> is_digit c \<or> is_space c
          \<or> c \<in> set ''+-*/=<>(){}[].,?!''))"

definition contains_excessive_special_chars :: "string \<Rightarrow> bool" where
  "contains_excessive_special_chars content =
     (real (length (filter is_special content)) > real (length content) * 0.3)"

text \<open>
  \<open>_clean_content\<close>: \<open>re.sub(r'\s+', ' ', ...)\<close> turns every maximal run of whitespace
  into one space, the second \<open>re.sub\<close> deletes every character outside the class, and
  the result is stripped.
\<close>

function collapse_whitespace :: "string \<Rightarrow> string" where
  "collapse_whitespace [] = []"
| "collapse_whitespace (c # cs) =
     (if is_space c then CHR '' '' # collapse_whitespace (dropWhile is_space cs)
      else c # collapse_whitespace cs)"
  by pat_completeness auto
termination
  by (relation "measure length") (auto simp: length_dropWhile_le less_Suc_eq_le)

definition is_kept :: "char \<Rightarrow> bool" where
  "is_kept c = (is_word c \<or> is_space c \<or> c \<in> set ''+-*/=<>(){}[].,?!'')"

definition clean_content :: "string \<Rightarrow> string" where
  "clean_content content = strip (filter is_kept (collapse_whitespace content))"

text \<open>The tables of \<open>OutputFilter\<close>; the bullet U+2022 of the structure pattern lies beyond U+00FF.\<close>

definition blocked_phrases :: "string list" where
  "blocked_phrases =
     [''I cannot help with'',
      ''I'' @ [CHR 0x27] @ ''m not able to assist'',
      ''This request violates'',
      ''I can'' @ [CHR 0x27] @ ''t provide information about'']"

definition quality_indicators :: "rx list" where
  "quality_indicators =
     [seqs [Bnd, words [''solution'', ''answer'', ''result'', ''calculation''], Bnd],
      seqs [Bnd, words [''step'', ''method'', ''approach'', ''process''], Bnd],
      seqs [Bnd, words [''therefore'', ''thus'', ''hence'', ''so''], Bnd],
      one_of ''+-*/='',
      seqs [Bnd, Plus digit, Bnd]]"

definition harmful_patterns :: "rx list" where
  "harmful_patterns =
     [seqs [Bnd, words [''personal'', ''private'', ''confidential''], Plus space, Lit ''information'', Bnd],
      seqs [Bnd, words [''hack'', ''exploit'', ''attack''], Bnd],
      seqs [Bnd, words [''illegal'', ''unlawful'', ''criminal''], Bnd]]"

definition min_answer_length :: nat where
  "min_answer_length = 20"

definition max_answer_length :: nat where
  "max_answer_length = 2000"

definition calculate_quality_score :: "string \<Rightarrow> real" where
  "calculate_quality_score content =
     (let matches = count_matches True quality_indicators content;
          total_indicators = length quality_indicators;
          base_score = real matches / real total_indicators
            + bonus (re_search False (seqs [alts [seqs [Plus digit, Lit ''.''], Lit ''*''], Plus space]) content) 0.2
            + bonus (re_search False (one_of ''+-*/=<>{}[]()'') content) 0.1
      in min 1 base_score)"

definition contains_harmful_content :: "string \<Rightarrow> bool" where
  "contains_harmful_content content = list_ex (\<lambda>pattern. re_search True pattern content) harmful_patterns"

text \<open>
  \<open>_clean_output\<close>: a run of three or more newlines becomes two, a run of two or more
  spaces becomes one, and the result is stripped.
\<close>

function squeeze :: "char \<Rightarrow> nat \<Rightarrow> string \<Rightarrow> string" where
  "squeeze x k [] = []"
| "squeeze x k (c # cs) =
     (if c = x then
        (let run = takeWhile (\<lambda>d. d = x) (c # cs)
         in (if length run > k then replicate k x else run)
            @ squeeze x k (dropWhile (\<lambda>d. d = x) cs))
      else c # squeeze x k cs)"
  by pat_completeness auto
termination
  by (relation "measure (\<lambda>(x, k, s). length s)") (auto simp: length_dropWhile_le less_Suc_eq_le)

definition clean_output :: "string \<Rightarrow> string" where
  "clean_output content = strip (squeeze (CHR '' '') 1 (squeeze (CHR ''\<newline>'') 2 content))"

text \<open>The result of both filters.\<close>

record FilterResult =
  is_safe :: bool
  content :: string
  filter_message :: string
  issues :: "string list"
  confidence :: real

text \<open>\<open>InputFilter.process\<close>, with the early returns in the order of the source.\<close>

definition InputFilter_process :: "string \<Rightarrow> FilterResult" where
  "InputFilter_process content0 =
     (if content0 = [] \<or> strip content0 = [] then
        \<lparr>is_safe = False, content = '''', filter_message = ''Empty query is not allowed'',
         issues = [''empty_content''], confidence = 1\<rparr>
      else
        (let stripped = strip content0;
             too_long = (length stripped > max_length);
             issues1 = (if too_long then [''content_too_long''] else []);
             content1 = (if too_long then take max_length stripped else stripped);
             confidence1 = (if too_long then 1 - 0.1 else 1)
         in if length content1 < min_length then
              \<lparr>is_safe = False, content = content1, filter_message = ''Query is too short'',
               issues = [''content_too_short''], confidence = 1\<rparr>
            else if list_ex (\<lambda>pattern. re_search True pattern content1) blocked_patterns then
              \<lparr>is_safe = False, content = content1,
               filter_message = ''Query contains potentially harmful content'',
               issues = [''blocked_pattern''], confidence = 1\<rparr>
            else if calculate_enhanced_math_score content1 < 0.2 then
              \<lparr>is_safe = False, content = content1,
               filter_message = ''Please enter a valid math question. Only mathematical questions are allowed.'',
               issues = [''non_mathematical''], confidence = 0\<rparr>
            else
              (let excessive = contains_excessive_special_chars content1;
                   issues2 = issues1 @ (if excessive then [''excessive_special_chars''] else []);
                   confidence2 = (if excessive then confidence1 - 0.2 else confidence1);
                   cleaned_content = clean_content content1;
                   safe = (confidence2 > 0.5 \<and> ''blocked_pattern'' \<notin> set issues2)
               in \<lparr>is_safe = safe, content = cleaned_content,
                   filter_message = (if safe then ''Content passed safety checks''
                                     else ''Content failed safety checks''),
                   issues = issues2, confidence = max 0 confidence2\<rparr>)))"

text \<open>\<open>OutputFilter.process\<close>. Each blocked phrase found costs 0.4 and adds one issue.\<close>

definition OutputFilter_process :: "string \<Rightarrow> FilterResult" where
  "OutputFilter_process content0 =
     (if content0 = [] \<or> strip content0 = [] then
        \<lparr>is_safe = False, content = '''', filter_message = ''Empty response is not allowed'',
         issues = [''empty_response''], confidence = 1\<rparr>
      else
        (let stripped = strip content0;
             too_short = (length stripped < min_answer_length);
             issues1 = (if too_short then [''response_too_short''] else []);
             confidence1 = (if too_short then 1 - 0.3 else 1);
             too_long = (length stripped > max_answer_length);
             issues2 = issues1 @ (if too_long then [''response_too_long''] else []);
             content1 = (if too_long then take max_answer_length stripped @ ''...'' else stripped);
             confidence2 = (if too_long then confidence1 - 0.1 else confidence1);
             refusals = filter (\<lambda>phrase. contains (lower content1) (lower phrase)) blocked_phrases;
             issues3 = issues2 @ map (\<lambda>phrase. ''refusal_pattern'') refusals;
             confidence3 = confidence2 - 0.4 * real (length refusals);
             low_quality = (calculate_quality_score content1 < 0.3);
             issues4 = issues3 @ (if low_quality then [''low_quality''] else []);
             confidence4 = (if low_quality then confidence3 - 0.3 else confidence3)
         in if contains_harmful_content content1 then
              \<lparr>is_safe = False, content = content1,
               filter_message = ''Response contains potentially harmful content'',
               issues = [''harmful_content''], confidence = 0\<rparr>
            else
              (let cleaned_content = clean_output content1;
                   safe = (confidence4 > 0.4)
               in \<lparr>is_safe = safe, content = cleaned_content,
                   filter_message = (if safe then ''Response passed safety checks''
                                     else ''Response has quality or safety issues''),
                   issues = issues4, confidence = max 0 confidence4\<rparr>)))"

section \<open>Google search service (app/core/google_search.py)\<close>

record GoogleSearchResult =
  gs_title :: string
  gs_snippet :: string
  gs_link :: string
  gs_display_link :: string

record GoogleSearchResponse =
  gr_query :: string
  gr_results :: "GoogleSearchResult list"
  gr_total_results :: int
  gr_used_google_search :: bool

text \<open>
  The service: whether credentials are configured, and what the HTTP request of
  \<open>_perform_search\<close> gives for an enhanced query (a response, nothing, or an exception).
\<close>

record GoogleSearchService =
  enabled :: bool
  perform_search :: "string \<Rightarrow> pyexc + GoogleSearchResponse option"

definition enhance_math_query :: "string \<Rightarrow> string option \<Rightarrow> string" where
  "enhance_math_query query ctx =
     (let query_lower = lower query;
          has_math_terms = list_ex (contains query_lower)
                             [''mathematics'', ''math'', ''solve'', ''calculate'', ''formula''];
          enhanced1 = (if \<not> has_math_terms then query @ '' mathematics'' else query);
          enhanced2 = (case ctx of
                         None \<Rightarrow> enhanced1
                       | Some c \<Rightarrow> if c \<noteq> [] then enhanced1 @ '' '' @ c else enhanced1)
      in if length enhanced2 > 200 then take 200 enhanced2 else enhanced2)"

definition search_math_query ::
  "GoogleSearchService \<Rightarrow> string \<Rightarrow> string option \<Rightarrow> GoogleSearchResponse option" where
  "search_math_query service query ctx =
     (if \<not> enabled service then None
      else (case perform_search service (enhance_math_query query ctx) of
              Inl e \<Rightarrow> None
            | Inr None \<Rightarrow> None
            | Inr (Some search_results) \<Rightarrow> Some search_results))"

text \<open>A reference is a dictionary; the routes read its title and its url.\<close>

record Reference =
  title :: string
  url :: string
  other_keys :: "(string \<times> string) list"

definition format_result :: "nat \<Rightarrow> GoogleSearchResult \<Rightarrow> string" where
  "format_result i result =
     ''\<newline>'' @ str_nat i @ ''. **'' @ gs_title result @ ''**\<newline>''
     @ ''   '' @ gs_snippet result @ ''\<newline>''
     @ ''   Source: '' @ gs_display_link result @ ''\<newline>''"

definition format_results_for_gemini :: "GoogleSearchResponse option \<Rightarrow> string" where
  "format_results_for_gemini search_response =
     (case search_response of
        None \<Rightarrow> ''''
      | Some r \<Rightarrow>
          if gr_results r = [] then ''''
          else ''\<newline>**Additional Web Search Results:**\<newline>''
               @ concat (map (\<lambda>(i, result). format_result (Suc i) result)
                            (enumerate 0 (take 3 (gr_results r)))))"

definition extract_references :: "GoogleSearchResponse option \<Rightarrow> Reference list" where
  "extract_references search_response =
     (case search_response of
        None \<Rightarrow> []
      | Some r \<Rightarrow>
          map (\<lambda>result.
                 \<lparr>title = gs_title result, url = gs_link result,
                  other_keys =
                    [(''source'', ''Google Search''),
                     (''snippet'', if length (gs_snippet result) > 100
                                   then take 100 (gs_snippet result) @ ''...''
                                   else gs_snippet result)]\<rparr>)
              (take 3 (gr_results r)))"

section \<open>Reference generation (app/core/web_search.py)\<close>

definition reference :: "string \<Rightarrow> string \<Rightarrow> string \<Rightarrow> Reference" where
  "reference t u d = \<lparr>title = t, url = u, other_keys = [(''description'', d)]\<rparr>"

text \<open>\<open>_generate_dynamic_references\<close>; its second argument is not read.\<close>

definition generate_dynamic_references :: "string \<Rightarrow> 'r list \<Rightarrow> Reference list" where
  "generate_dynamic_references query results =
     (let query_lower = lower query;
          plus = replace query (CHR '' '') ''+'';
          references =
            (if contains query_lower ''solve'' \<and> CHR ''='' \<in> set query then
               [reference (''Equation Solver: '' @ query)
                  (''https://www.wolframalpha.com/input/?i='' @ replace plus (CHR ''='') ''%3D'')
                  ''Step-by-step algebraic solution with verification'',
                reference ''Algebra Methods and Techniques''
                  ''https://www.khanacademy.org/math/algebra/x2f8bb11595b61c86:solve-equations''
                  ''Comprehensive guide to solving linear equations'',
                reference ''Equation Verification Calculator''
                  ''https://www.mathway.com/Algebra''
                  ''Verify your solution and explore alternative methods'']
             else if contains query_lower ''derivative'' then
               [reference (''Derivative Calculator: '' @ query)
                  (''https://www.wolframalpha.com/input/?i=derivative+'' @ plus)
                  ''Symbolic differentiation with step-by-step process'',
                reference ''Differentiation Rules Reference''
                  ''https://www.khanacademy.org/math/calculus-1/cs1-derivatives-definition-and-basic-rules''
                  ''Power rule, product rule, and chain rule explanations'',
                reference ''Calculus Problem Solver''
                  ''https://www.mathway.com/Calculus''
                  ''Interactive derivative calculator with graphing'']
             else if contains query_lower ''integral'' \<or> contains query_lower ''integrate'' then
               [reference (''Integration Calculator: '' @ query)
                  (''https://www.wolframalpha.com/input/?i=integrate+'' @ plus)
                  ''Symbolic integration with detailed steps'',
                reference ''Integration Techniques Guide''
                  ''https://www.khanacademy.org/math/calculus-2/cs2-integration-techniques''
                  ''Substitution, integration by parts, and more'',
                reference ''Integral Table and Reference''
                  ''https://www.integral-table.com/''
                  ''Comprehensive table of common integrals'']
             else if list_ex (contains query_lower) [''area'', ''volume'', ''circumference'', ''perimeter''] then
               [reference (''Geometry Calculator: '' @ query)
                  (''https://www.wolframalpha.com/input/?i='' @ plus)
                  ''Geometric calculations with formulas and diagrams'',
                reference ''Geometry Formulas Reference''
                  ''https://www.khanacademy.org/math/geometry''
                  ''Complete guide to geometric shapes and formulas'',
                reference ''Interactive Geometry Tool''
                  ''https://www.geogebra.org/geometry''
                  ''Visual geometry calculator and construction tool'']
             else
               [reference (''Math Problem Solver: '' @ query)
                  (''https://www.wolframalpha.com/input/?i='' @ plus)
                  ''Computational mathematics engine'',
                reference ''Mathematics Learning Platform''
                  ''https://www.khanacademy.org/math''
                  ''Free courses and practice exercises'',
                reference ''Step-by-Step Math Solutions''
                  ''https://www.mathway.com/''
                  ''Instant math problem solver with explanations''])
      in take 3 references)"

section \<open>The query route (app/api/routes.py)\<close>

record MathQuery =
  mq_question :: string
  mq_context :: "string option"
  mq_user_id :: "string option"

record MathResponse =
  mr_answer :: string
  mr_confidence :: real
  mr_sources :: "string list"
  mr_query_id :: string
  mr_reasoning_steps :: "string list option"
  used_google_search :: bool
  google_search_count :: nat
  kb_confidence :: real

text \<open>An HTTPException: the status code and the detail, a text or a dictionary.\<close>

datatype detail = Text string | Fields "(string \<times> string) list"

datatype http_error = HTTPException nat detail

text \<open>
  What \<open>web_search.search_and_synthesize\<close> returns (it catches its own faults), and
  what \<open>knowledge_base.query\<close> returns, as far as the route reads it.
\<close>

record SearchResult =
  sr_answer :: string
  sr_confidence :: real
  sr_sources :: "string list"
  sr_query_id :: string
  sr_reasoning_steps :: "string list option"

record QueryResult =
  qr_answer :: string
  qr_confidence :: real
  qr_sources :: "string list"

text \<open>
  The collaborators of one request: the knowledge base, the Google service, the
  reasoning service (\<open>llm_service.generate_step_by_step_solution\<close>, from question and
  context), the web-search fallback, \<open>uuid.uuid4()\<close> and the clock.
\<close>

record Collaborators =
  kb_query :: "string \<Rightarrow> string option \<Rightarrow> pyexc + QueryResult option"
  google :: GoogleSearchService
  llm :: "string \<Rightarrow> string option \<Rightarrow> pyexc + string"
  search_and_synthesize :: "string \<Rightarrow> string option \<Rightarrow> SearchResult"
  uuid4 :: string
  clock :: nat

text \<open>
  \<open>f"{x:.2f}"\<close>: the value of the float, rounded to two decimals, a tie going to the
  even neighbour.
\<close>

definition round_half_even :: "real \<Rightarrow> int" where
  "round_half_even y =
     (let f = \<lfloor>y\<rfloor>; d = y - of_int f
      in if d < 1 / 2 then f else if d > 1 / 2 then f + 1 else if even f then f else f + 1)"

definition format_2f :: "real \<Rightarrow> string" where
  "format_2f x =
     (let n = nat (round_half_even (\<bar>x\<bar> * 100))
      in (if x < 0 then ''-'' else []) @ str_nat (n div 100) @ ''.''
         @ [digit_char (n mod 100 div 10), digit_char (n mod 10)])"

text \<open>
  \<open>FeedbackManager.log_query\<close>: the log goes into the cache, and an exception of
  \<open>get_database()\<close> is raised again after that.
\<close>

definition store_query_log_in_db :: "Database \<Rightarrow> QueryLog \<Rightarrow> Database" where
  "store_query_log_in_db d ql =
     (if db_ok d then d\<lparr>db_query_logs := (db_query_logs d)(ql_query_id ql \<mapsto> ql)\<rparr> else d)"

definition log_query ::
  "FeedbackManager \<Rightarrow> nat \<Rightarrow> string \<Rightarrow> string \<Rightarrow> string \<Rightarrow> string option
     \<Rightarrow> (pyexc + QueryLog) \<times> FeedbackManager" where
  "log_query m now query_id question answer user_id =
     (let query_log = \<lparr>ql_query_id = query_id, ql_question = question, ql_answer = answer,
                        ql_confidence = 0, ql_sources = [], ql_user_id = user_id,
                        ql_timestamp = now, ql_reasoning_steps = None\<rparr>;
          m1 = m\<lparr>query_logs := (query_logs m)(query_id \<mapsto> query_log)\<rparr>
      in case get_database (database m1) of
           Inl e \<Rightarrow> (Inl e, m1)
         | Inr has_db \<Rightarrow>
             (Inr query_log,
              if has_db then m1\<lparr>database := store_query_log_in_db (database m1) query_log\<rparr> else m1))"

text \<open>
  What one run of \<open>solve_math_problem\<close> leaves behind: the response or the
  HTTPException, the number of calls of \<open>google_search_service.search_math_query\<close>,
  and the feedback manager.
\<close>

record Run =
  outcome :: "http_error + MathResponse"
  google_calls :: nat
  manager :: FeedbackManager

text \<open>STEP 2 of the route: the Google search, only below the threshold \<open>0.7\<close>.\<close>

definition google_fallback ::
  "Collaborators \<Rightarrow> real \<Rightarrow> string \<Rightarrow> string option \<Rightarrow> GoogleSearchResponse option \<times> nat" where
  "google_fallback env kb_conf query ctx =
     (if kb_conf < 0.7 then (search_math_query (google env) query ctx, 1) else (None, 0))"

definition has_results :: "GoogleSearchResponse option \<Rightarrow> bool" where
  "has_results google_search_data =
     (case google_search_data of None \<Rightarrow> False | Some r \<Rightarrow> gr_results r \<noteq> [])"

text \<open>STEP 4: the references, two of Google's before one of the generated ones.\<close>

definition merge_references ::
  "GoogleSearchResponse option \<Rightarrow> Reference list \<Rightarrow> Reference list" where
  "merge_references google_search_data references =
     (if has_results google_search_data then
        map (\<lambda>ref. \<lparr>title = title ref, url = url ref, other_keys = []\<rparr>)
            (take 2 (extract_references google_search_data) @ take 1 references)
      else references)"

definition reasoning_steps_of :: "Collaborators \<Rightarrow> real \<Rightarrow> GoogleSearchResponse option \<Rightarrow> string list" where
  "reasoning_steps_of env kb_conf google_search_data =
     [''Processed mathematical question through AI system'',
      ''Searched knowledge base (confidence: '' @ format_2f kb_conf @ '')'']
     @ (case google_search_data of
          None \<Rightarrow> []
        | Some r \<Rightarrow>
            if gr_results r \<noteq> []
            then [''Enhanced with Google search ('' @ str_nat (length (gr_results r)) @ '' results)'']
            else [])
     @ [''Generated comprehensive step-by-step solution'',
        ''Provided verification and detailed explanation'',
        ''Added relevant mathematical resources and references'']"

text \<open>
  STEP 3 to 5: the result object built from the answer of the reasoning service, or,
  when that service raises, the result of the web-search fallback with the defaults
  that \<open>getattr\<close> supplies for the three Google fields.
\<close>

definition build_result ::
  "Collaborators \<Rightarrow> string \<Rightarrow> string option \<Rightarrow> real \<Rightarrow> GoogleSearchResponse option \<Rightarrow> MathResponse" where
  "build_result env query ctx kb_conf google_search_data =
     (let additional_context = (if has_results google_search_data
                                then format_results_for_gemini google_search_data else '''');
          enhanced_context = (case ctx of None \<Rightarrow> '''' | Some c \<Rightarrow> c) @ additional_context
      in case llm env query (if enhanced_context \<noteq> [] then Some enhanced_context else None) of
           Inr llm_answer \<Rightarrow>
             (let references = merge_references google_search_data
                                 (generate_dynamic_references query ([] :: unit list))
              in \<lparr>mr_answer = llm_answer,
                  mr_confidence = (if contains llm_answer ''Gemini AI'' then 0.90 else 0.75),
                  mr_sources = map title (take 3 references),
                  mr_query_id = uuid4 env,
                  mr_reasoning_steps = Some (reasoning_steps_of env kb_conf google_search_data),
                  used_google_search = has_results google_search_data,
                  google_search_count =
                    (case google_search_data of
                       None \<Rightarrow> 0
                     | Some r \<Rightarrow> length (gr_results r)),
                  kb_confidence = kb_conf\<rparr>)
         | Inl e \<Rightarrow>
             (let result = search_and_synthesize env query ctx
              in \<lparr>mr_answer = sr_answer result,
                  mr_confidence = sr_confidence result,
                  mr_sources = sr_sources result,
                  mr_query_id = sr_query_id result,
                  mr_reasoning_steps = sr_reasoning_steps result,
                  used_google_search = False,
                  google_search_count = 0,
                  kb_confidence = 0\<rparr>))"

text \<open>
  \<open>solve_math_problem\<close>. An HTTPException passes through the outer handler; any other
  exception becomes status 500.
\<close>

definition internal_error :: "pyexc \<Rightarrow> http_error" where
  "internal_error e = HTTPException 500 (Text (''Error processing query: '' @ exc_str e))"

definition solve_math_problem :: "Collaborators \<Rightarrow> FeedbackManager \<Rightarrow> MathQuery \<Rightarrow> Run" where
  "solve_math_problem env m query =
     (let filtered_query = InputFilter_process (mq_question query)
      in if \<not> is_safe filtered_query then
           \<lparr>outcome = Inl (HTTPException 400
                 (if ''non_mathematical'' \<in> set (issues filtered_query)
                  then Fields [(''error'', ''Non-mathematical question''),
                               (''message'', filter_message filtered_query),
                               (''suggestion'',
                                ''Try asking questions like '' @ [CHR 0x27] @ ''Solve 2x + 5 = 13''
                                @ [CHR 0x27] @ '' or '' @ [CHR 0x27]
                                @ ''What is the derivative of x^2?'' @ [CHR 0x27])]
                  else Text (filter_message filtered_query))),
            google_calls = 0, manager = m\<rparr>
         else
           (case kb_query env (content filtered_query) (mq_context query) of
              Inl e \<Rightarrow> \<lparr>outcome = Inl (internal_error e), google_calls = 0, manager = m\<rparr>
            | Inr kb_result \<Rightarrow>
                (let kb_conf = (case kb_result of None \<Rightarrow> 0 | Some r \<Rightarrow> qr_confidence r);
                     (google_search_data, calls) =
                        google_fallback env kb_conf (content filtered_query) (mq_context query);
                     result = build_result env (content filtered_query) (mq_context query)
                                kb_conf google_search_data;
                     filtered_output = OutputFilter_process (mr_answer result)
                 in if \<not> is_safe filtered_output then
                      \<lparr>outcome = Inl (HTTPException 500 (Text ''Generated response failed safety checks'')),
                       google_calls = calls, manager = m\<rparr>
                    else
                      (let response = result\<lparr>mr_answer := content filtered_output\<rparr>
                       in case log_query m (clock env) (mr_query_id response) (mq_question query)
                                 (mr_answer response) (mq_user_id query) of
                            (Inl e, m') \<Rightarrow>
                              \<lparr>outcome = Inl (internal_error e), google_calls = calls, manager = m'\<rparr>
                          | (Inr logged, m') \<Rightarrow>
                              \<lparr>outcome = Inr response, google_calls = calls, manager = m'\<rparr>))))"

text \<open>
  A request and its collaborators: the knowledge base answers with the given
  confidence, Google finds the given results, and the reasoning service answers.
\<close>

definition example_hit :: GoogleSearchResult where
  "example_hit = \<lparr>gs_title = ''Addition - Wikipedia'',
     gs_snippet = ''Addition is one of the four basic operations of arithmetic.'',
     gs_link = ''https://en.wikipedia.org/wiki/Addition'', gs_display_link = ''en.wikipedia.org''\<rparr>"

definition example_env :: "real \<Rightarrow> GoogleSearchResult list \<Rightarrow> Collaborators" where
  "example_env kb_conf hits =
     \<lparr>kb_query = (\<lambda>q c. Inr (Some \<lparr>qr_answer = ''1 + 1 = 2'', qr_confidence = kb_conf, qr_sources = []\<rparr>)),
      google = \<lparr>enabled = True,
                perform_search = (\<lambda>q. Inr (Some \<lparr>gr_query = q, gr_results = hits,
                                                    gr_total_results = int (length hits),
                                                    gr_used_google_search = True\<rparr>))\<rparr>,
      llm = (\<lambda>q c. Inr ''The answer is 2, so 1 + 1 = 2.''),
      search_and_synthesize =
        (\<lambda>q c. \<lparr>sr_answer = ''No relevant information found through web search.'',
                  sr_confidence = 0.1, sr_sources = [], sr_query_id = ''q-8'',
                  sr_reasoning_steps = None\<rparr>),
      uuid4 = ''q-7'', clock = 0\<rparr>"

definition example_query :: MathQuery where
  "example_query = \<lparr>mq_question = ''1 +  1'', mq_context = None, mq_user_id = None\<rparr>"

section \<open>Properties of the fallback solver\<close>

lemma join_lines_nonempty: "l \<noteq> [] \<Longrightarrow> join_lines (l # ls) \<noteq> []"
  by (cases ls) simp_all



















lemma str_nat_digit: "n < 10 \<Longrightarrow> str_nat n = [digit_char n]"
  by (simp add: str_nat.simps)

lemma eq13_linear_match: "linear_match ''2x+5'' = Some (''2'', CHR ''+'', ''5'')"
  by (simp add: linear_match_def is_space_def is_digit_def Let_def)

lemma eq13_equation_search: "equation_search ''2x + 5 = 13'' = Some (''2x + 5 '', '' 13'')"
  by (simp add: equation_at_def not_eq_sign_def Let_def)

lemma eq13_strip: "strip ''2x + 5 '' = ''2x + 5''" "strip '' 13'' = ''13''" "strip ''13'' = ''13''" "strip ''2'' = ''2''" "strip ''5'' = ''5''"
  by (simp_all add: strip_def is_space_def)

lemma eq13_ints: "py_int ''2'' = Inr 2" "py_int ''5'' = Inr 5" "py_int ''13'' = Inr 13"
  by (simp_all add: py_int_def eq13_strip is_digit_def digits_val_def digit_val_def Let_def)

lemma eq13_floats: "py_truediv rt 8 2 = Inr 4" "int_mul_float rt 2 4 = Inr 8" "float_add_int rt 8 5 = Inr 13"
  by (simp_all add: py_truediv_def int_mul_float_def float_add_int_def to_float_def)

lemma eq13_strs: "str_int 2 = ''2''" "str_int 5 = ''5''" "str_int 8 = ''8''" "str_int 13 = ''13''"
  "float_str rt 4 = ''4.0''" "float_str rt 13 = ''13.0''"
  by (simp_all add: str_int_def float_str_def str_nat.simps digit_char_def)

text \<open>
  Claim C7. On \<open>2x + 5 = 13\<close> the dispatcher takes the equation branch, the structured
  parse succeeds, and the answer is the three-step derivation: the solution 4 (printed
  as the float \<open>4.0\<close>, the quotient of a true division), and the verification lines
  that put it back into the equation.
\<close>

theorem C7_equation_2x_plus_5_eq_13:
  "comprehensive_fallback_solution rt ''2x + 5 = 13'' context
     = Inr (solve_equation_comprehensive rt ''2x + 5 = 13'')
   \<and> solve_equation_comprehensive rt ''2x + 5 = 13'' =
     join_lines
       [''## Step-by-Step Solution for: 2x + 5 = 13'',
        '''',
        ''**Given equation:** 2x + 5 = 13'',
        '''',
        ''**Step 1:** Isolate the variable term'',
        ''Move the constant to the right side:'',
        ''2x = 13 - (5)'',
        ''2x = 8'',
        '''',
        ''**Step 2:** Solve for x'',
        ''Divide both sides by 2:'',
        ''x = 8 '' @ u_divide @ '' 2'',
        ''x = 4.0'',
        '''',
        ''**Step 3:** Verify the solution'',
        ''Substitute x = 4.0 back into the original equation:'',
        ''2(4.0) + (5) = 13.0'',
        ''13.0 = 13 '' @ u_check,
        '''',
        ''**Answer:** x = 4.0'']"
proof -
  have a: "\<not> contains ''2x + 5 = 13'' ''3x + 7 = 10''" "\<not> contains ''2x + 5 = 13'' ''3x+7=10''"
    by simp_all
  have f: "filter (\<lambda>c. c \<noteq> CHR '' '') ''2x + 5'' = ''2x+5''" by simp
  have l: "linear_solution rt ''2'' (CHR ''+'') ''5'' ''2x + 5'' ''13'' ''2x + 5 = 13'' = Inr (join_lines
       [''## Step-by-Step Solution for: 2x + 5 = 13'',
        '''',
        ''**Given equation:** 2x + 5 = 13'',
        '''',
        ''**Step 1:** Isolate the variable term'',
        ''Move the constant to the right side:'',
        ''2x = 13 - (5)'',
        ''2x = 8'',
        '''',
        ''**Step 2:** Solve for x'',
        ''Divide both sides by 2:'',
        ''x = 8 '' @ u_divide @ '' 2'',
        ''x = 4.0'',
        '''',
        ''**Step 3:** Verify the solution'',
        ''Substitute x = 4.0 back into the original equation:'',
        ''2(4.0) + (5) = 13.0'',
        ''13.0 = 13 '' @ u_check,
        '''',
        ''**Answer:** x = 4.0''])"
    by (simp add: linear_solution_def eq13_ints eq13_strip eq13_floats eq13_strs Let_def)
  have s: "solve_linear_equation_pattern rt ''2x + 5'' ''13'' ''2x + 5 = 13'' = join_lines
       [''## Step-by-Step Solution for: 2x + 5 = 13'',
        '''',
        ''**Given equation:** 2x + 5 = 13'',
        '''',
        ''**Step 1:** Isolate the variable term'',
        ''Move the constant to the right side:'',
        ''2x = 13 - (5)'',
        ''2x = 8'',
        '''',
        ''**Step 2:** Solve for x'',
        ''Divide both sides by 2:'',
        ''x = 8 '' @ u_divide @ '' 2'',
        ''x = 4.0'',
        '''',
        ''**Step 3:** Verify the solution'',
        ''Substitute x = 4.0 back into the original equation:'',
        ''2(4.0) + (5) = 13.0'',
        ''13.0 = 13 '' @ u_check,
        '''',
        ''**Answer:** x = 4.0'']"
    by (simp add: solve_linear_equation_pattern_def Let_def f eq13_linear_match l)
  have e: "CHR ''='' \<in> set ''2x + 5 = 13''" by simp
  have t: "solve_equation_comprehensive rt ''2x + 5 = 13'' =
      solve_linear_equation_pattern rt ''2x + 5'' ''13'' ''2x + 5 = 13''"
    unfolding solve_equation_comprehensive_def eq13_equation_search
    using a by (simp add: eq13_strip)
  show ?thesis
    using e by (simp add: comprehensive_fallback_solution_def Let_def t s)
qed

lemma template_nonempty [simp]: "join_lines ((a # l) # ls) \<noteq> []"
  by (cases ls) simp_all












section \<open>Properties of the feedback loop\<close>



text \<open>
  Claim C1, as stated, fails: a correction without a corrected answer on a logged query
  succeeds and leaves the stored entry marked processed.
\<close>

theorem C1_counterexample:
  "success (fst (process_feedback example_manager ''f-1'' 7 ''q-1'' ''correction'' None None None)) = True
   \<and> map_option fe_processed
        (feedback_entries (snd (process_feedback example_manager ''f-1'' 7 ''q-1'' ''correction'' None None None)) ''f-1'')
       = Some True"
  by (simp add: process_feedback_def FeedbackType_of_def example_manager_def get_database_def Let_def)

text \<open>
  Claim C1, amended. A correction without a corrected answer, on a query id that
  resolves to a log in the cache or in the store, with a store connection that does not
  raise: the result is a success with an empty list of actions, and the feedback entry
  is stored under the new id, marked processed. The handler's guard on the corrected
  answer only suppresses the correction actions.
\<close>

theorem C1_correction_without_answer:
  assumes "query_logs m query_id = Some ql
           \<or> (query_logs m query_id = None \<and> db_conn (database m) = Connected \<and> db_ok (database m)
              \<and> db_query_logs (database m) query_id = Some ql)"
    and "\<forall>e. db_conn (database m) \<noteq> ConnectFails e"
  shows "success (fst (process_feedback m uuid now query_id ''correction'' txt None usr)) = True
       \<and> actions_taken (fst (process_feedback m uuid now query_id ''correction'' txt None usr)) = []
       \<and> feedback_entries (snd (process_feedback m uuid now query_id ''correction'' txt None usr)) uuid
          = Some \<lparr>fe_feedback_id = uuid, fe_query_id = query_id, fe_feedback_type = CORRECTION,
                  fe_feedback_text = txt, fe_corrected_answer = None, fe_user_id = usr,
                  fe_timestamp = now, fe_processed = True\<rparr>"
  using assms
  by (auto simp: process_feedback_def get_database_def fetch_query_log_from_db_def FeedbackType_of_def
        process_feedback_by_type_def handle_correction_feedback_def truthy_def Let_def
           split: connection.splits)

theorem C1_correction_without_answer_witness:
  "query_logs example_manager ''q-1'' = Some example_log
   \<and> (\<forall>e. db_conn (database example_manager) \<noteq> ConnectFails e)
   \<and> success (fst (process_feedback example_manager ''f-1'' 7 ''q-1'' ''correction'' (Some ''wrong'') None None)) = True
   \<and> actions_taken (fst (process_feedback example_manager ''f-1'' 7 ''q-1'' ''correction'' (Some ''wrong'') None None)) = []"
  using C1_correction_without_answer [of example_manager "''q-1''" example_log "''f-1''" 7 "Some ''wrong''" None]
  by (simp add: example_manager_def)

section \<open>The content filters\<close>

subsection \<open>Evaluation of the filters on sample texts\<close>

lemma strip_Nil [simp]: "strip [] = []"
  by (simp add: strip_def)

lemma length_strip_le: "length (strip s) \<le> length s"
proof -
  have "length (strip s) \<le> length (dropWhile is_space s)"
    unfolding strip_def by (metis length_dropWhile_le length_rev)
  also have "\<dots> \<le> length s" by (rule length_dropWhile_le)
  finally show ?thesis .
qed

lemmas rx_defs = re_search_def Plus_def Opt_def words_def one_of_def digit_def space_def any_char_def
  word_before_def word_after_def advance_def is_word_def is_digit_def is_space_def is_lower_az_def is_upper_az_def
  lower_def lower_char_def ascii_lower_def latin_lower_def

lemma bonus_nonneg: "0 \<le> x \<Longrightarrow> 0 \<le> bonus c x"
  by (simp add: bonus_def)

lemma score_bound:
  fixes a :: real
  assumes "0 \<le> a" "0 \<le> b1" "0 \<le> b3" "0 \<le> b4" "0 \<le> b5" "0 \<le> b6" "0 \<le> b7" "0 \<le> b8" "0 \<le> b9" "0 \<le> b10"
  shows "\<not> min (a + b1 + 0.3 + b3 + b4 + b5 + b6 + b7 + b8 + b9 + b10) 1 < 0.2"
  using assms by (simp add: min_def)

lemma arithmetic_bonus:
  assumes nm: "count_matches True non_math_indicators (lower s) = 0"
    and ar: "re_search False (seqs [Plus digit, Star space, one_of (''+-*/'' @ [CHR 0xD7, CHR 0xF7]), Star space, Plus digit]) s"
  shows "\<not> calculate_enhanced_math_score s < 0.2"
proof -
  have t: "bonus (re_search False (seqs [Plus digit, Star space, one_of (''+-*/'' @ [CHR 0xD7, CHR 0xF7]), Star space, Plus digit]) s) 0.3 = 0.3"
    using ar by (simp add: bonus_def)
  have z: "(0::nat) < 0 = False" by simp
  show ?thesis
    unfolding calculate_enhanced_math_score_def Let_def nm t z if_False
    by (rule score_bound) (simp_all add: bonus_nonneg)
qed

lemma ex_strip: "strip ''1 +  1'' = ''1 +  1''"
  by (simp add: strip_def is_space_def)

lemma ex_not_blocked: "\<not> list_ex (\<lambda>pattern. re_search True pattern ''1 +  1'') blocked_patterns"
  by (simp add: blocked_patterns_def rx_defs)

lemma ex_lower: "lower ''1 +  1'' = ''1 +  1''"
  by (simp add: lower_def lower_char_def)

lemma ex_no_non_math: "count_matches True non_math_indicators ''1 +  1'' = 0"
  by (simp add: count_matches_def non_math_indicators_def rx_defs)

lemma ex_arith: "re_search False (seqs [Plus digit, Star space, one_of (''+-*/'' @ [CHR 0xD7, CHR 0xF7]), Star space, Plus digit]) ''1 +  1''"
  by (simp add: rx_defs)

lemma ex_not_excessive: "\<not> contains_excessive_special_chars ''1 +  1''"
  by (simp add: contains_excessive_special_chars_def is_special_def is_digit_def is_space_def is_lower_az_def is_upper_az_def)

lemma ex_clean: "clean_content ''1 +  1'' = ''1 + 1''"
  by (simp add: clean_content_def is_kept_def is_word_def is_digit_def is_space_def is_lower_az_def is_upper_az_def strip_def)

lemma ex_accepted:
  "InputFilter_process ''1 +  1'' = \<lparr>is_safe = True, content = ''1 + 1'',
     filter_message = ''Content passed safety checks'', issues = [], confidence = 1\<rparr>"
proof -
  have score: "\<not> calculate_enhanced_math_score ''1 +  1'' < 0.2"
    using arithmetic_bonus[of "''1 +  1''"] ex_lower ex_no_non_math ex_arith by simp
  show ?thesis
    unfolding InputFilter_process_def Let_def ex_strip
    using score ex_not_blocked ex_not_excessive
    by (simp add: ex_clean max_length_def min_length_def)
qed

lemma ex_answer_strip: "strip ''The answer is 2, so 1 + 1 = 2.'' = ''The answer is 2, so 1 + 1 = 2.''"
  by (simp add: strip_def is_space_def)

lemma ex_answer_lower: "lower ''The answer is 2, so 1 + 1 = 2.'' = ''the answer is 2, so 1 + 1 = 2.''"
  by (simp add: lower_def lower_char_def ascii_lower_def)

lemma ex_answer_no_refusal:
  "filter (\<lambda>phrase. contains ''the answer is 2, so 1 + 1 = 2.'' (lower phrase)) blocked_phrases = []"
  by (simp add: blocked_phrases_def lower_def lower_char_def ascii_lower_def)

lemma ex_answer_quality: "calculate_quality_score ''The answer is 2, so 1 + 1 = 2.'' = 9 / 10"
  by (simp add: calculate_quality_score_def count_matches_def quality_indicators_def bonus_def rx_defs Let_def)

lemma ex_answer_not_harmful: "\<not> contains_harmful_content ''The answer is 2, so 1 + 1 = 2.''"
  by (simp add: contains_harmful_content_def harmful_patterns_def rx_defs)

lemma ex_answer_clean: "clean_output ''The answer is 2, so 1 + 1 = 2.'' = ''The answer is 2, so 1 + 1 = 2.''"
  by (simp add: clean_output_def strip_def is_space_def)

lemma ex_answer_safe:
  "OutputFilter_process ''The answer is 2, so 1 + 1 = 2.'' =
     \<lparr>is_safe = True, content = ''The answer is 2, so 1 + 1 = 2.'',
      filter_message = ''Response passed safety checks'', issues = [], confidence = 1\<rparr>"
  unfolding OutputFilter_process_def Let_def ex_answer_strip
  using ex_answer_not_harmful
  by (simp add: ex_answer_lower ex_answer_no_refusal ex_answer_quality ex_answer_clean
      min_answer_length_def max_answer_length_def del: contains.simps)

subsection \<open>Short input\<close>

text \<open>
  Claim C8, as stated, fails: the empty text has fewer than 3 characters and is rejected
  with the reason code \<open>empty_content\<close>, the emptiness test coming first.
\<close>

theorem C8_counterexample:
  "length ('''' :: string) < 3 \<and> issues (InputFilter_process '''') = [''empty_content'']"
  by (simp add: InputFilter_process_def)

text \<open>
  Claim C8, amended. Every input text of fewer than 3 characters is rejected; the reason
  code is \<open>content_too_short\<close> when the text has a character that is not whitespace,
  and \<open>empty_content\<close> when it is empty or whitespace only.
\<close>

theorem C8_short_input_rejected:
  assumes "length content0 < 3"
  shows "is_safe (InputFilter_process content0) = False
       \<and> issues (InputFilter_process content0)
           = (if strip content0 = [] then [''empty_content''] else [''content_too_short''])"
proof -
  have "length (strip content0) < 3" using assms length_strip_le[of content0] by simp
  then show ?thesis
    by (auto simp: InputFilter_process_def Let_def max_length_def min_length_def strip_def)
qed

theorem C8_short_input_rejected_witness:
  "length ''hi'' < 3 \<and> is_safe (InputFilter_process ''hi'') = False
   \<and> issues (InputFilter_process ''hi'') = [''content_too_short'']"
  using C8_short_input_rejected [of "''hi''"]
  by (simp add: strip_def is_space_def)

subsection \<open>The returned content\<close>




subsection \<open>Confidence\<close>

text \<open>
  Claim C10. For every text, the confidence of the input filter's result and the
  confidence of the output filter's result lie in the closed interval from 0 to 1.
\<close>

theorem C10_confidence_in_unit_interval:
  "0 \<le> confidence (InputFilter_process s) \<and> confidence (InputFilter_process s) \<le> 1
   \<and> 0 \<le> confidence (OutputFilter_process t) \<and> confidence (OutputFilter_process t) \<le> 1"
proof -
  have i: "0 \<le> confidence (InputFilter_process s) \<and> confidence (InputFilter_process s) \<le> 1"
    by (simp add: InputFilter_process_def Let_def)
  have o: "0 \<le> confidence (OutputFilter_process t) \<and> confidence (OutputFilter_process t) \<le> 1"
    by (simp add: OutputFilter_process_def Let_def)
  show ?thesis using i o by simp
qed

theorem C10_confidence_in_unit_interval_witness:
  "0 \<le> confidence (InputFilter_process ''1 +  1'') \<and> confidence (InputFilter_process ''1 +  1'') \<le> 1
   \<and> 0 \<le> confidence (OutputFilter_process ''No.'') \<and> confidence (OutputFilter_process ''No.'') \<le> 1"
  using C10_confidence_in_unit_interval [of "''1 +  1''" "''No.''"] by simp

section \<open>The solve route\<close>

subsection \<open>References and sample runs\<close>

lemma generate_dynamic_references_three: "length (generate_dynamic_references q rs) = 3"
  by (simp add: generate_dynamic_references_def Let_def del: contains.simps)

lemma ex_kb: "kb_query (example_env k hits) q c
   = Inr (Some \<lparr>qr_answer = ''1 + 1 = 2'', qr_confidence = k, qr_sources = []\<rparr>)"
  by (simp add: example_env_def)

lemma ex_log:
  "fst (log_query example_manager now qid q a u) =
     Inr \<lparr>ql_query_id = qid, ql_question = q, ql_answer = a, ql_confidence = 0, ql_sources = [],
          ql_user_id = u, ql_timestamp = now, ql_reasoning_steps = None\<rparr>"
  by (simp add: log_query_def example_manager_def get_database_def Let_def)

lemma ex_run:
  "outcome (solve_math_problem (example_env k hits) example_manager example_query)
     = Inr (build_result (example_env k hits) ''1 + 1'' None k
              (fst (google_fallback (example_env k hits) k ''1 + 1'' None)))"
proof -
  have l: "llm (example_env k hits) q c = Inr ''The answer is 2, so 1 + 1 = 2.''" for q c
    by (simp add: example_env_def)
  have a: "mr_answer (build_result (example_env k hits) q c k' g) = ''The answer is 2, so 1 + 1 = 2.''" for q c k' g
    by (simp add: build_result_def Let_def l)
  obtain g n where gf: "google_fallback (example_env k hits) k ''1 + 1'' None = (g, n)"
    by (cases "google_fallback (example_env k hits) k ''1 + 1'' None") auto
  obtain r m' where lq: "log_query example_manager (clock (example_env k hits))
        (mr_query_id (build_result (example_env k hits) ''1 + 1'' None k g)) ''1 +  1''
        ''The answer is 2, so 1 + 1 = 2.'' None = (Inr r, m')"
    using ex_log by (metis fst_conv surj_pair)
  show ?thesis
    unfolding solve_math_problem_def Let_def
    by (simp add: example_query_def ex_accepted ex_kb gf a ex_answer_safe lq)
qed

lemma sources_count:
  assumes "llm env q (if (case c of None \<Rightarrow> '''' | Some x \<Rightarrow> x) @ (if has_results g then format_results_for_gemini g else '''') \<noteq> []
                      then Some ((case c of None \<Rightarrow> '''' | Some x \<Rightarrow> x) @ (if has_results g then format_results_for_gemini g else ''''))
                      else None) = Inr a"
  shows "length (mr_sources (build_result env q c k g)) =
           (case g of
              None \<Rightarrow> 3
            | Some r \<Rightarrow> if gr_results r = [] then 3 else min (length (gr_results r)) 2 + 1)"
  using assms generate_dynamic_references_three[of q "[] :: unit list"]
  by (cases g)
     (auto simp: build_result_def Let_def merge_references_def has_results_def extract_references_def
        min_def)

lemma ex_google:
  "k < 0.7 \<Longrightarrow> google_fallback (example_env k hits) k q None =
     (Some \<lparr>gr_query = enhance_math_query q None, gr_results = hits,
            gr_total_results = int (length hits), gr_used_google_search = True\<rparr>, 1)"
  by (simp add: google_fallback_def search_math_query_def example_env_def)

lemma ex_references: "map title (take 1 (generate_dynamic_references ''1 + 1'' ([] :: unit list)))
   = [''Math Problem Solver: 1 + 1'']"
  by (simp add: generate_dynamic_references_def Let_def lower_def lower_char_def reference_def)

subsection \<open>The search threshold\<close>

text \<open>
  Claim C3. When the knowledge base returns a result of confidence at least 0.7, the
  Google search service is not called during the resolution, and every response that is
  returned reports \<open>used_google_search = False\<close> and \<open>google_search_count = 0\<close>.
\<close>

theorem C3_no_google_search_above_threshold:
  assumes kb: "kb_query env (content (InputFilter_process (mq_question query))) (mq_context query)
                 = Inr (Some kb_result)"
    and conf: "0.7 \<le> qr_confidence kb_result"
  shows "google_calls (solve_math_problem env m query) = 0
       \<and> (\<forall>response. outcome (solve_math_problem env m query) = Inr response
            \<longrightarrow> used_google_search response = False \<and> google_search_count response = 0)"
proof -
  have g: "google_fallback env (qr_confidence kb_result) q c = (None, 0)" for q c
    using conf by (simp add: google_fallback_def)
  have b: "used_google_search (build_result env q c k None) = False
         \<and> google_search_count (build_result env q c k None) = 0" for q c k
    by (simp add: build_result_def has_results_def Let_def split: sum.splits)
  show ?thesis
    unfolding solve_math_problem_def Let_def kb
    using b by (auto simp: g split: prod.splits sum.splits)
qed

theorem C3_no_google_search_above_threshold_witness:
  "kb_query (example_env 0.85 [example_hit]) (content (InputFilter_process (mq_question example_query)))
       (mq_context example_query)
     = Inr (Some \<lparr>qr_answer = ''1 + 1 = 2'', qr_confidence = 0.85, qr_sources = []\<rparr>)
   \<and> (0.7 :: real) \<le> 0.85
   \<and> google_calls (solve_math_problem (example_env 0.85 [example_hit]) example_manager example_query) = 0
   \<and> map_sum id used_google_search
         (outcome (solve_math_problem (example_env 0.85 [example_hit]) example_manager example_query))
       = Inr False
   \<and> map_sum id google_search_count
         (outcome (solve_math_problem (example_env 0.85 [example_hit]) example_manager example_query))
       = Inr 0"
proof -
  have k: "kb_query (example_env 0.85 [example_hit]) (content (InputFilter_process (mq_question example_query)))
       (mq_context example_query)
     = Inr (Some \<lparr>qr_answer = ''1 + 1 = 2'', qr_confidence = 0.85, qr_sources = []\<rparr>)"
    by (rule ex_kb)
  have c: "0.7 \<le> qr_confidence \<lparr>qr_answer = ''1 + 1 = 2'', qr_confidence = 0.85, qr_sources = []\<rparr>"
    by simp
  show ?thesis
    using C3_no_google_search_above_threshold [OF k c, of example_manager] k
    by (simp add: ex_run)
qed

subsection \<open>The number of sources\<close>

text \<open>
  Claim C2 on a concrete run: the knowledge base answers with confidence 0.5, the Google
  search is called once and returns one result. The response then lists two sources, the
  title of the Google result and the first generated reference; nothing pads the list to
  three, although the route's comment and the generator's docstring say exactly 3.
\<close>

theorem C2_one_google_result_gives_two_sources:
  "google_calls (solve_math_problem (example_env (1 / 2) [example_hit]) example_manager example_query) = 1
   \<and> map_sum id mr_sources
        (outcome (solve_math_problem (example_env (1 / 2) [example_hit]) example_manager example_query))
       = Inr [''Addition - Wikipedia'', ''Math Problem Solver: 1 + 1'']"
proof -
  have l: "llm (example_env k hits) q c = Inr ''The answer is 2, so 1 + 1 = 2.''" for k hits q c
    by (simp add: example_env_def)
  have s: "mr_sources (build_result (example_env (1 / 2) [example_hit]) ''1 + 1'' None (1 / 2)
             (Some \<lparr>gr_query = x, gr_results = [example_hit],
                    gr_total_results = t, gr_used_google_search = u\<rparr>))
           = [''Addition - Wikipedia'', ''Math Problem Solver: 1 + 1'']" for x t u
    using ex_references
    by (simp add: build_result_def Let_def l merge_references_def has_results_def
        extract_references_def example_hit_def take_map comp_def del: contains.simps)
  have c: "google_calls (solve_math_problem (example_env (1 / 2) [example_hit]) example_manager example_query) = 1"
  proof -
    have a: "mr_answer (build_result (example_env k hits) q c k' g) = ''The answer is 2, so 1 + 1 = 2.''"
      for k hits q c k' g
      by (simp add: build_result_def Let_def l)
    show ?thesis
      unfolding solve_math_problem_def Let_def
      by (simp add: example_query_def ex_accepted ex_kb ex_google a ex_answer_safe split: prod.splits sum.splits)
  qed
  show ?thesis using c by (simp add: ex_run ex_google s)
qed

end
